theory Spec2Isabelle
  imports Main "HOL-Library.Word"
begin

section \<open>Types of the intermediate representation\<close>

text \<open>
  The file \<^verbatim>\<open>hlo_legalize_to_memref.cc\<close> builds operations of the memref, arith and
  tensor dialects through a rewriter. The model keeps what the file itself inspects of
  a type: the shape (one entry per dimension, \<open>None\<close> for a dynamic extent, which is
  what \<^verbatim>\<open>ShapedType::isDynamic\<close> and \<^verbatim>\<open>isDynamicDim\<close> test), the element type,
  whether a tensor is ranked, and the layout of a memref.
\<close>

datatype elem_ty = IndexType | IntegerType nat | FloatType nat

type_synonym shape = "int option list"

text \<open>
  A memref layout is the identity (what \<^verbatim>\<open>MemRefType::get(shape, elementType)\<close>
  gives) or a strided linear layout with one stride per dimension and an offset,
  \<open>None\<close> standing for \<^verbatim>\<open>ShapedType::kDynamicStrideOrOffset\<close>.
\<close>

datatype layout = IdentityLayout | StridedLinearLayout "int option list" "int option"

datatype tensor_type = RankedTensorType shape elem_ty | UnrankedTensorType elem_ty

datatype memref_type = MemRefType shape elem_ty layout | UnrankedMemRefType elem_ty nat

datatype ty = TensorTy tensor_type | MemRefTy memref_type | ScalarTy elem_ty

datatype 'v OpFoldResult = OfrValue 'v | OfrAttr int

datatype CmpIPredicate = eq | ne | slt | sle | sgt | sge | ult | ule | ugt | uge

text \<open>
  A value is identified with the operation that defines it, holding its operands in
  turn, or it is defined outside the operations built here (\<open>Extern\<close>, with an
  identifier and its type): the buffers handed over by \<^verbatim>\<open>getBuffer\<close> and the tensor
  operands of the mhlo operations. Each constructor carries what the file passes to the
  operation's builder: \<^verbatim>\<open>memref.dim\<close> the buffer and the dimension,
  \<^verbatim>\<open>tensor.extract\<close> the tensor and its one index, \<^verbatim>\<open>arith.index_cast\<close> the
  result type and the value, \<^verbatim>\<open>memref.reinterpret_cast\<close> the result type, the
  source, the offset, the sizes and the strides, \<^verbatim>\<open>memref.alloc\<close> the type and the
  dynamic sizes, \<^verbatim>\<open>memref.copy\<close> the source and the target, \<^verbatim>\<open>memref.cast\<close> the
  type and the source, \<^verbatim>\<open>memref.reshape\<close> the type, the source and the shape.
  \<^verbatim>\<open>memref.copy\<close> has no result; it appears in the list of inserted operations
  only. Locations are left out.
\<close>

datatype val =
    Extern nat ty
  | arith_ConstantIndexOp int
  | memref_DimOp val nat
  | arith_MulIOp val val
  | tensor_ExtractOp val val
  | arith_IndexCastOp elem_ty val
  | arith_CmpIOp CmpIPredicate val val
  | arith_SelectOp val val val
  | memref_ReinterpretCastOp memref_type val "val OpFoldResult"
      "val OpFoldResult list" "val OpFoldResult list"
  | memref_AllocOp memref_type "val list"
  | memref_CopyOp val val
  | memref_CastOp memref_type val
  | memref_ReshapeOp memref_type val val

fun getElementType :: "ty \<Rightarrow> elem_ty" where
  "getElementType (TensorTy (RankedTensorType s e)) = e"
| "getElementType (TensorTy (UnrankedTensorType e)) = e"
| "getElementType (MemRefTy (MemRefType s e l)) = e"
| "getElementType (MemRefTy (UnrankedMemRefType e m)) = e"
| "getElementType (ScalarTy e) = e"

text \<open>The type of a value; an operation without a result has none.\<close>

fun type_of :: "val \<Rightarrow> ty option" where
  "type_of (Extern n t) = Some t"
| "type_of (arith_ConstantIndexOp n) = Some (ScalarTy IndexType)"
| "type_of (memref_DimOp v i) = Some (ScalarTy IndexType)"
| "type_of (arith_MulIOp a b) = type_of a"
| "type_of (tensor_ExtractOp t i) = map_option (\<lambda>tt. ScalarTy (getElementType tt)) (type_of t)"
| "type_of (arith_IndexCastOp t v) = Some (ScalarTy t)"
| "type_of (arith_CmpIOp p a b) = Some (ScalarTy (IntegerType 1))"
| "type_of (arith_SelectOp c a b) = type_of a"
| "type_of (memref_ReinterpretCastOp t v off sizes strides) = Some (MemRefTy t)"
| "type_of (memref_AllocOp t vs) = Some (MemRefTy t)"
| "type_of (memref_CopyOp a b) = None"
| "type_of (memref_CastOp t v) = Some (MemRefTy t)"
| "type_of (memref_ReshapeOp t v s) = Some (MemRefTy t)"

definition isIndex :: "ty option \<Rightarrow> bool" where
  "isIndex t = (t = Some (ScalarTy IndexType))"

section \<open>The mhlo operations and the rewriter\<close>

text \<open>
  The three operation kinds the file bufferizes, with the accessors the file calls:
  \<^verbatim>\<open>operand()\<close>, \<^verbatim>\<open>output_shape()\<close> (operand 1 of the dynamic reshape),
  \<^verbatim>\<open>output_dimensions()\<close>, \<^verbatim>\<open>broadcast_dimensions()\<close> and \<^verbatim>\<open>getType()\<close>, the
  tensor type of the single result. The broadcast dimensions are 64-bit signed
  attribute values, given here by the integers \<^verbatim>\<open>getSExtValue()\<close> returns.
\<close>

datatype Operation =
    mhlo_ReshapeOp (operand: val) (getType: tensor_type)
  | mhlo_DynamicReshapeOp (operand: val) (output_shape: val) (getType: tensor_type)
  | mhlo_DynamicBroadcastInDimOp (operand: val) (output_dimensions: val)
      (broadcast_dimensions: "int list") (getType: tensor_type)

datatype OpResult = getResult Operation nat

datatype BufferRelation = BufferRelation_None | BufferRelation_Equivalent

datatype LogicalResult = success | failure

text \<open>
  Assertions of the source are branches of the model: a failed \<^verbatim>\<open>cast<>\<close>, an index
  outside a \<^verbatim>\<open>SmallVector\<close>, a key a \<^verbatim>\<open>DenseMap\<close> refuses, and the assertion on
  the dialect state.
\<close>

datatype error = CastFailed | IndexOutOfRange | DenseMapReservedKey
  | DialectStateNotInitialized

text \<open>
  The rewriter (also the \<^verbatim>\<open>OpBuilder\<close> passed on to the helper functions): the
  operations inserted so far, in order, and the replacements recorded, each an original
  operation with the buffer value that stands for its result. \<^verbatim>\<open>create\<close> inserts an
  operation and gives its result; \<^verbatim>\<open>replaceOpWithBufferizedValues\<close> records a
  replacement; \<^verbatim>\<open>replaceOpWithNewBufferizedOp\<close> creates the operation and replaces
  the original by its result.
\<close>

record rewriter =
  inserted :: "val list"
  replaced :: "(Operation \<times> val) list"

definition create :: "val \<Rightarrow> rewriter \<Rightarrow> val \<times> rewriter" where
  "create v b = (v, b\<lparr>inserted := inserted b @ [v]\<rparr>)"

definition replaceOpWithBufferizedValues :: "rewriter \<Rightarrow> Operation \<Rightarrow> val \<Rightarrow> rewriter" where
  "replaceOpWithBufferizedValues rw op v = rw\<lparr>replaced := replaced rw @ [(op, v)]\<rparr>"

definition replaceOpWithNewBufferizedOp :: "rewriter \<Rightarrow> Operation \<Rightarrow> val \<Rightarrow> rewriter" where
  "replaceOpWithNewBufferizedOp rw op new_op =
     (let (v, rw1) = create new_op rw in replaceOpWithBufferizedValues rw1 op v)"

text \<open>
  The dialect state of mhlo holds the policy \<^verbatim>\<open>enforce_identity_map_fn\<close>. The
  bufferization state is the driver's: \<^verbatim>\<open>getBuffer\<close> may fail and may itself insert
  operations, so it takes and returns the rewriter; \<^verbatim>\<open>getDialectState\<close> looks a
  dialect state up by the dialect's namespace, and may find none.
\<close>

record MhloBufferizationState =
  enforce_identity_map_fn :: "Operation \<Rightarrow> bool"

record BufferizationState =
  getBuffer :: "rewriter \<Rightarrow> val \<Rightarrow> val option \<times> rewriter"
  getDialectState :: "string \<Rightarrow> MhloBufferizationState option"

definition getDialectNamespace :: string where
  "getDialectNamespace = ''mhlo''"

section \<open>The strategies' declared effects\<close>

text \<open>
  One external model per operation kind. The four queries of each model are constant
  functions of their arguments (the operation, the operand or result asked about, and
  the state); an operand is named by its number.
\<close>

datatype interface = ReshapeOpInterface | DynamicReshapeOpInterface
  | DynamicBroadcastInDimOpInterface

fun bufferizesToMemoryRead :: "interface \<Rightarrow> Operation \<Rightarrow> nat \<Rightarrow> BufferizationState \<Rightarrow> bool" where
  "bufferizesToMemoryRead ReshapeOpInterface op opOperand state = False"
| "bufferizesToMemoryRead DynamicReshapeOpInterface op opOperand state = False"
| "bufferizesToMemoryRead DynamicBroadcastInDimOpInterface op opOperand state = True"

fun bufferizesToMemoryWrite :: "interface \<Rightarrow> Operation \<Rightarrow> nat \<Rightarrow> BufferizationState \<Rightarrow> bool" where
  "bufferizesToMemoryWrite ReshapeOpInterface op opOperand state = False"
| "bufferizesToMemoryWrite DynamicReshapeOpInterface op opOperand state = False"
| "bufferizesToMemoryWrite DynamicBroadcastInDimOpInterface op opOperand state = False"

fun getAliasingOpResult :: "interface \<Rightarrow> Operation \<Rightarrow> nat \<Rightarrow> BufferizationState \<Rightarrow> OpResult list" where
  "getAliasingOpResult ReshapeOpInterface op opOperand state = [getResult op 0]"
| "getAliasingOpResult DynamicReshapeOpInterface op opOperand state = [getResult op 0]"
| "getAliasingOpResult DynamicBroadcastInDimOpInterface op opOperand state = [getResult op 0]"

fun bufferRelation :: "interface \<Rightarrow> Operation \<Rightarrow> OpResult \<Rightarrow> BufferizationState \<Rightarrow> BufferRelation" where
  "bufferRelation ReshapeOpInterface op opResult state = BufferRelation_Equivalent"
| "bufferRelation DynamicReshapeOpInterface op opResult state = BufferRelation_Equivalent"
| "bufferRelation DynamicBroadcastInDimOpInterface op opResult state = BufferRelation_None"

section \<open>Reshape and dynamic reshape\<close>

text \<open>
  \<^verbatim>\<open>ReshapeOpInterface::bufferize\<close>. The \<^verbatim>\<open>cast<mhlo::ReshapeOp>\<close> of the operation
  and the \<^verbatim>\<open>cast<RankedTensorType>\<close> of its result type assert.
\<close>

definition ReshapeOpInterface_bufferize ::
  "Operation \<Rightarrow> rewriter \<Rightarrow> BufferizationState \<Rightarrow> error + LogicalResult \<times> rewriter" where
  "ReshapeOpInterface_bufferize op rewriter state =
     (case op of
        mhlo_ReshapeOp opnd res_ty \<Rightarrow>
          (case type_of opnd of
             Some (TensorTy (UnrankedTensorType unranked_elem)) \<Rightarrow>
               (case getBuffer state rewriter opnd of
                  (None, rw1) \<Rightarrow> Inr (failure, rw1)
                | (Some operand_buffer, rw1) \<Rightarrow>
                    (case res_ty of
                       RankedTensorType result_shape result_elem \<Rightarrow>
                         (let dest_type = MemRefType result_shape result_elem IdentityLayout
                          in Inr (success,
                               replaceOpWithNewBufferizedOp rw1 op
                                 (memref_CastOp dest_type operand_buffer)))
                     | UnrankedTensorType e \<Rightarrow> Inl CastFailed))
           | _ \<Rightarrow> Inr (failure, rewriter))
      | _ \<Rightarrow> Inl CastFailed)"

text \<open>
  \<^verbatim>\<open>DynamicReshapeOpInterface::bufferize\<close>. A tensor type is ranked or unranked, so
  one of the two branches that set \<^verbatim>\<open>result_type\<close> is taken; the unranked memref
  is in memory space 0.
\<close>

definition DynamicReshapeOpInterface_bufferize ::
  "Operation \<Rightarrow> rewriter \<Rightarrow> BufferizationState \<Rightarrow> error + LogicalResult \<times> rewriter" where
  "DynamicReshapeOpInterface_bufferize op rewriter state =
     (case op of
        mhlo_DynamicReshapeOp opnd out_shape op_result_type \<Rightarrow>
          (case getBuffer state rewriter opnd of
             (None, rw1) \<Rightarrow> Inr (failure, rw1)
           | (Some operand_buffer, rw1) \<Rightarrow>
               (case getBuffer state rw1 out_shape of
                  (None, rw2) \<Rightarrow> Inr (failure, rw2)
                | (Some output_shape_buffer, rw2) \<Rightarrow>
                    (let result_type =
                           (case op_result_type of
                              RankedTensorType ranked_shape ranked_elem \<Rightarrow>
                                MemRefType ranked_shape ranked_elem IdentityLayout
                            | UnrankedTensorType unranked_elem \<Rightarrow>
                                UnrankedMemRefType unranked_elem 0)
                     in Inr (success,
                          replaceOpWithNewBufferizedOp rw2 op
                            (memref_ReshapeOp result_type operand_buffer output_shape_buffer)))))
      | _ \<Rightarrow> Inl CastFailed)"

section \<open>Dynamic broadcast: the strided view\<close>

text \<open>
  The first loop of \<^verbatim>\<open>InsertDynamicMemrefCastOp\<close> runs \<open>i\<close> from
  \<^verbatim>\<open>operand_rank - 1\<close> down to 0. \<open>scan_step\<close> is its body at \<open>i\<close>;
  \<open>scan_loop n\<close> runs the iterations \<open>i = n - 1, ..., 0\<close> on the loop's variables
  \<^verbatim>\<open>operand_strides\<close>, \<^verbatim>\<open>operand_sizes\<close>, \<^verbatim>\<open>stride_so_far\<close> and the builder.
\<close>

type_synonym scan_state = "val list \<times> val list \<times> val \<times> rewriter"

definition scan_step :: "val \<Rightarrow> shape \<Rightarrow> nat \<Rightarrow> scan_state \<Rightarrow> scan_state" where
  "scan_step opnd operand_shape i st =
     (case st of (operand_strides, operand_sizes, stride_so_far, b) \<Rightarrow>
        (let (operand_dim_size, b1) =
               (case operand_shape ! i of
                  None \<Rightarrow> create (memref_DimOp opnd i) b
                | Some n \<Rightarrow> create (arith_ConstantIndexOp n) b);
             operand_sizes1 = operand_sizes[i := operand_dim_size];
             operand_strides1 = operand_strides[i := stride_so_far]
         in if 0 < i
            then (let (stride_so_far1, b2) =
                        create (arith_MulIOp stride_so_far operand_dim_size) b1
                  in (operand_strides1, operand_sizes1, stride_so_far1, b2))
            else (operand_strides1, operand_sizes1, stride_so_far, b1)))"

fun scan_loop :: "val \<Rightarrow> shape \<Rightarrow> nat \<Rightarrow> scan_state \<Rightarrow> scan_state" where
  "scan_loop opnd operand_shape 0 st = st"
| "scan_loop opnd operand_shape (Suc i) st =
     scan_loop opnd operand_shape i (scan_step opnd operand_shape i st)"

text \<open>
  The map \<^verbatim>\<open>output_to_input_dim\<close> is a \<^verbatim>\<open>DenseMap<int, int>\<close>, a finite map here.
  Its key is an \<^verbatim>\<open>int\<close>, while \<^verbatim>\<open>getSExtValue()\<close> gives a 64-bit value: the
  key stored is that value narrowed to 32 bits (two's complement). A
  \<^verbatim>\<open>DenseMap\<close> with \<^verbatim>\<open>int\<close> keys keeps the largest and the smallest \<^verbatim>\<open>int\<close> for
  its empty and its deleted buckets and asserts that neither is inserted. A later entry
  of the mapping with the same key overwrites an earlier one.
\<close>

definition narrow_to_int :: "int \<Rightarrow> int" where
  "narrow_to_int v = (v + 2147483648) mod 4294967296 - 2147483648"

definition getEmptyKey :: int where
  "getEmptyKey = 2147483647"

definition getTombstoneKey :: int where
  "getTombstoneKey = - 2147483648"

fun build_output_to_input_dim ::
  "int list \<Rightarrow> nat \<Rightarrow> (int \<rightharpoonup> nat) \<Rightarrow> error + (int \<rightharpoonup> nat)" where
  "build_output_to_input_dim [] index m = Inr m"
| "build_output_to_input_dim (v # vs) index m =
     (if narrow_to_int v = getEmptyKey \<or> narrow_to_int v = getTombstoneKey
      then Inl DenseMapReservedKey
      else build_output_to_input_dim vs (Suc index) (m(narrow_to_int v \<mapsto> index)))"

text \<open>
  The second loop runs \<open>i\<close> from 0 up to the result rank. \<open>result_step\<close> is its
  body; the loop's variables are \<^verbatim>\<open>sizes\<close>, \<^verbatim>\<open>strides\<close> and the builder. Reading
  \<^verbatim>\<open>operand_sizes[dim]\<close> or \<^verbatim>\<open>operand_strides[dim]\<close> outside the vector is an
  assertion failure. \<open>extract_dim_size\<close> is the reading of the target size of
  dimension \<open>i\<close> from the shape operand, which this loop and the loop of
  \<^verbatim>\<open>CreateCopy\<close> both spell out: the constant \<open>i\<close>, the \<^verbatim>\<open>tensor.extract\<close>, and
  an \<^verbatim>\<open>arith.index_cast\<close> when the extracted value is not of index type.
\<close>

type_synonym result_state = "val OpFoldResult list \<times> val OpFoldResult list \<times> rewriter"

definition extract_dim_size :: "Operation \<Rightarrow> nat \<Rightarrow> rewriter \<Rightarrow> val \<times> rewriter" where
  "extract_dim_size op i b =
     (let (i_val, b1) = create (arith_ConstantIndexOp (int i)) b;
          (result_dim_size, b2) = create (tensor_ExtractOp (output_dimensions op) i_val) b1
      in if \<not> isIndex (type_of result_dim_size)
         then create (arith_IndexCastOp IndexType result_dim_size) b2
         else (result_dim_size, b2))"

definition result_step ::
  "Operation \<Rightarrow> shape \<Rightarrow> (int \<rightharpoonup> nat) \<Rightarrow> val \<Rightarrow> val list \<Rightarrow> val list \<Rightarrow> nat \<Rightarrow>
     result_state \<Rightarrow> error + result_state" where
  "result_step op result_shape output_to_input_dim zero operand_sizes operand_strides i st =
     (case st of (sizes, strides, b) \<Rightarrow>
        (let (result_dim_size, b2) = extract_dim_size op i b;
             sizes1 = (case result_shape ! i of
                         None \<Rightarrow> sizes @ [OfrValue result_dim_size]
                       | Some n \<Rightarrow> sizes @ [OfrAttr n])
         in case output_to_input_dim (int i) of
              None \<Rightarrow> Inr (sizes1, strides @ [OfrValue zero], b2)
            | Some dim \<Rightarrow>
                if dim < length operand_sizes \<and> dim < length operand_strides
                then (let (is_expansion, b3) =
                            create (arith_CmpIOp slt (operand_sizes ! dim) result_dim_size) b2;
                          (select, b4) =
                            create (arith_SelectOp is_expansion zero (operand_strides ! dim)) b3
                      in Inr (sizes1, strides @ [OfrValue select], b4))
                else Inl IndexOutOfRange))"

fun result_loop ::
  "Operation \<Rightarrow> shape \<Rightarrow> (int \<rightharpoonup> nat) \<Rightarrow> val \<Rightarrow> val list \<Rightarrow> val list \<Rightarrow> nat list \<Rightarrow>
     result_state \<Rightarrow> error + result_state" where
  "result_loop op result_shape m zero operand_sizes operand_strides [] st = Inr st"
| "result_loop op result_shape m zero operand_sizes operand_strides (i # is) st =
     (case result_step op result_shape m zero operand_sizes operand_strides i st of
        Inl e \<Rightarrow> Inl e
      | Inr st1 \<Rightarrow> result_loop op result_shape m zero operand_sizes operand_strides is st1)"

definition makeStridedLinearLayoutMap :: "int option list \<Rightarrow> int option \<Rightarrow> layout" where
  "makeStridedLinearLayoutMap strides offset = StridedLinearLayout strides offset"

text \<open>
  \<^verbatim>\<open>InsertDynamicMemrefCastOp\<close>. The operand's type is cast to a memref type and the
  operation's type to a ranked tensor type; both casts assert.
\<close>

definition InsertDynamicMemrefCastOp ::
  "Operation \<Rightarrow> val \<Rightarrow> rewriter \<Rightarrow> error + val \<times> rewriter" where
  "InsertDynamicMemrefCastOp op opnd b =
     (case type_of opnd of
        Some (MemRefTy (MemRefType operand_shape operand_elem operand_layout)) \<Rightarrow>
          (case getType op of
             RankedTensorType result_shape result_elem \<Rightarrow>
               (let operand_rank = length operand_shape;
                    result_rank = length result_shape;
                    (zero, b1) = create (arith_ConstantIndexOp 0) b;
                    (one, b2) = create (arith_ConstantIndexOp 1) b1;
                    (operand_strides, operand_sizes, stride_so_far, b3) =
                      scan_loop opnd operand_shape operand_rank
                        (replicate operand_rank one, replicate operand_rank one, one, b2)
                in case build_output_to_input_dim (broadcast_dimensions op) 0 Map.empty of
                     Inl e \<Rightarrow> Inl e
                   | Inr output_to_input_dim \<Rightarrow>
                       (case result_loop op result_shape output_to_input_dim zero
                               operand_sizes operand_strides [0..<result_rank] ([], [], b3) of
                          Inl e \<Rightarrow> Inl e
                        | Inr (sizes, strides, b4) \<Rightarrow>
                            (let dynamic_layout = replicate result_rank None;
                                 type_erased_memref_type =
                                   MemRefType result_shape operand_elem
                                     (makeStridedLinearLayoutMap dynamic_layout (Some 0))
                             in Inr (create (memref_ReinterpretCastOp type_erased_memref_type
                                               opnd (OfrAttr 0) sizes strides) b4))))
           | UnrankedTensorType e \<Rightarrow> Inl CastFailed)
      | _ \<Rightarrow> Inl CastFailed)"

section \<open>Dynamic broadcast: the copy and the rewrite\<close>

text \<open>
  \<^verbatim>\<open>CreateCopy\<close>. Its loop visits the dimensions of the view's type in order and reads
  the size of each dynamic one from the shape operand, as the second loop of
  \<^verbatim>\<open>InsertDynamicMemrefCastOp\<close> does (\<^verbatim>\<open>createOrFold\<close> of a constant keeps the
  constant). The cast of the view's type to a memref type asserts.
\<close>

fun CreateCopy_loop :: "Operation \<Rightarrow> shape \<Rightarrow> nat list \<Rightarrow> val list \<times> rewriter \<Rightarrow> val list \<times> rewriter" where
  "CreateCopy_loop op result_shape [] st = st"
| "CreateCopy_loop op result_shape (i # is) st =
     (case st of (dynamic_operands, b) \<Rightarrow>
        if result_shape ! i \<noteq> None
        then CreateCopy_loop op result_shape is (dynamic_operands, b)
        else (let (size, b1) = extract_dim_size op i b
              in CreateCopy_loop op result_shape is (dynamic_operands @ [size], b1)))"

definition CreateCopy :: "Operation \<Rightarrow> val \<Rightarrow> rewriter \<Rightarrow> error + val \<times> rewriter" where
  "CreateCopy op broadcasted b =
     (case type_of broadcasted of
        Some (MemRefTy (MemRefType result_shape result_elem result_layout)) \<Rightarrow>
          (let (dynamic_operands, b1) =
                 CreateCopy_loop op result_shape [0..<length result_shape] ([], b);
               identity_map_memref = MemRefType result_shape result_elem IdentityLayout;
               (copy, b2) = create (memref_AllocOp identity_map_memref dynamic_operands) b1;
               (copy_op, b3) = create (memref_CopyOp broadcasted copy) b2
           in Inr (copy, b3))
      | _ \<Rightarrow> Inl CastFailed)"

text \<open>
  \<^verbatim>\<open>DynamicBroadcastInDimOpInterface::bufferize\<close>: the result type must be ranked
  and the operand's buffer obtained, else failure; then the view is built, the dialect
  state is looked up (its absence is an assertion failure), the policy decides on the
  copy, and the operation is replaced.
\<close>

definition DynamicBroadcastInDimOpInterface_bufferize ::
  "Operation \<Rightarrow> rewriter \<Rightarrow> BufferizationState \<Rightarrow> error + LogicalResult \<times> rewriter" where
  "DynamicBroadcastInDimOpInterface_bufferize op rewriter state =
     (case op of
        mhlo_DynamicBroadcastInDimOp opnd out_dims bcast_dims res_ty \<Rightarrow>
          (case res_ty of
             UnrankedTensorType e \<Rightarrow> Inr (failure, rewriter)
           | RankedTensorType result_shape result_elem \<Rightarrow>
               (case getBuffer state rewriter opnd of
                  (None, rw1) \<Rightarrow> Inr (failure, rw1)
                | (Some operand_buffer, rw1) \<Rightarrow>
                    (case InsertDynamicMemrefCastOp op operand_buffer rw1 of
                       Inl e \<Rightarrow> Inl e
                     | Inr (result, rw2) \<Rightarrow>
                         (case getDialectState state getDialectNamespace of
                            None \<Rightarrow> Inl DialectStateNotInitialized
                          | Some dialect_state \<Rightarrow>
                              if enforce_identity_map_fn dialect_state op
                              then (case CreateCopy op result rw2 of
                                      Inl e \<Rightarrow> Inl e
                                    | Inr (result1, rw3) \<Rightarrow>
                                        Inr (success,
                                          replaceOpWithBufferizedValues rw3 op result1))
                              else Inr (success,
                                     replaceOpWithBufferizedValues rw2 op result)))))
      | _ \<Rightarrow> Inl CastFailed)"

section \<open>The registry and the pass\<close>

text \<open>
  \<^verbatim>\<open>registerBufferizableOpInterfaceExternalModels\<close> attaches one external model to
  each of the three operation kinds; \<open>bufferize\<close> is the dispatch through the model
  attached.
\<close>

fun registerBufferizableOpInterfaceExternalModels :: "Operation \<Rightarrow> interface" where
  "registerBufferizableOpInterfaceExternalModels (mhlo_ReshapeOp v t) = ReshapeOpInterface"
| "registerBufferizableOpInterfaceExternalModels (mhlo_DynamicReshapeOp v s t) =
     DynamicReshapeOpInterface"
| "registerBufferizableOpInterfaceExternalModels (mhlo_DynamicBroadcastInDimOp v s d t) =
     DynamicBroadcastInDimOpInterface"

fun bufferize ::
  "interface \<Rightarrow> Operation \<Rightarrow> rewriter \<Rightarrow> BufferizationState \<Rightarrow> error + LogicalResult \<times> rewriter" where
  "bufferize ReshapeOpInterface op rw state = ReshapeOpInterface_bufferize op rw state"
| "bufferize DynamicReshapeOpInterface op rw state =
     DynamicReshapeOpInterface_bufferize op rw state"
| "bufferize DynamicBroadcastInDimOpInterface op rw state =
     DynamicBroadcastInDimOpInterface_bufferize op rw state"

record BufferizationOptions =
  dialectFilter :: "string list"
  stateInitializers :: "(string \<times> (unit \<Rightarrow> MhloBufferizationState)) list"

definition allowDialectInFilter :: "string \<Rightarrow> BufferizationOptions \<Rightarrow> BufferizationOptions" where
  "allowDialectInFilter name options = options\<lparr>dialectFilter := dialectFilter options @ [name]\<rparr>"

definition addDialectStateInitializer ::
  "string \<Rightarrow> (unit \<Rightarrow> MhloBufferizationState) \<Rightarrow> BufferizationOptions \<Rightarrow> BufferizationOptions" where
  "addDialectStateInitializer name fn options =
     options\<lparr>stateInitializers := stateInitializers options @ [(name, fn)]\<rparr>"

text \<open>
  Modelled from the spec: the driver \<^verbatim>\<open>bufferizeOp\<close>, which the pass calls and which
  is not part of the file. The spec (sections 3, 4.5 and 5) says of it: the
  Bufferization State is created once per pass invocation; the policy object is
  initialized and stored in it before any operation is rewritten and only read
  afterwards; the operations are visited once each, in order, each rewritten by the
  strategy registered for its kind; the failure of one rewrite aborts the pass, and what
  was rewritten before remains. \<open>module\<close> lists the operations of the three kinds in
  the order of the visit, \<open>get_buffer\<close> is the driver's own lookup of operand buffers.
\<close>

definition createBufferizationState ::
  "BufferizationOptions \<Rightarrow> (rewriter \<Rightarrow> val \<Rightarrow> val option \<times> rewriter) \<Rightarrow> BufferizationState" where
  "createBufferizationState options get_buffer =
     \<lparr>getBuffer = get_buffer,
      getDialectState = map_of (map (\<lambda>(name, fn). (name, fn ())) (stateInitializers options))\<rparr>"

fun bufferizeOps ::
  "Operation list \<Rightarrow> BufferizationState \<Rightarrow> rewriter \<Rightarrow> error + LogicalResult \<times> rewriter" where
  "bufferizeOps [] state rw = Inr (success, rw)"
| "bufferizeOps (op # ops) state rw =
     (case bufferize (registerBufferizableOpInterfaceExternalModels op) op rw state of
        Inl e \<Rightarrow> Inl e
      | Inr (failure, rw1) \<Rightarrow> Inr (failure, rw1)
      | Inr (success, rw1) \<Rightarrow> bufferizeOps ops state rw1)"

definition bufferizeOp ::
  "Operation list \<Rightarrow> BufferizationOptions \<Rightarrow> (rewriter \<Rightarrow> val \<Rightarrow> val option \<times> rewriter) \<Rightarrow>
     rewriter \<Rightarrow> error + LogicalResult \<times> rewriter" where
  "bufferizeOp module options get_buffer rw =
     bufferizeOps module (createBufferizationState options get_buffer) rw"

text \<open>
  \<^verbatim>\<open>HloLegalizeToMemrefPass::runOnOperation\<close>. The options it starts from
  (\<^verbatim>\<open>getPartialBufferizationOptions()\<close>) and the default-constructed
  \<^verbatim>\<open>MhloBufferizationState\<close> are declared outside the file and are parameters here.
  The boolean returned says whether \<^verbatim>\<open>signalPassFailure\<close> was called.
\<close>

definition runOnOperation ::
  "BufferizationOptions \<Rightarrow> MhloBufferizationState \<Rightarrow>
     (rewriter \<Rightarrow> val \<Rightarrow> val option \<times> rewriter) \<Rightarrow> Operation list \<Rightarrow> rewriter \<Rightarrow>
     error + bool \<times> rewriter" where
  "runOnOperation partial_options default_state get_buffer module rw =
     (let options0 = partial_options;
          options1 = allowDialectInFilter getDialectNamespace options0;
          options2 = addDialectStateInitializer getDialectNamespace (\<lambda>u. default_state) options1
      in case bufferizeOp module options2 get_buffer rw of
           Inl e \<Rightarrow> Inl e
         | Inr (r, rw1) \<Rightarrow> Inr (r = failure, rw1))"

section \<open>Reading the emitted index computations\<close>

text \<open>
  Modelled from the spec: what the emitted index computations yield when the lowered
  program runs. The operations belong to the arith, memref and tensor dialects, whose
  definitions are not part of the file; the spec (section 4.4) reads them as a
  run-time size read, a running product, a signed less-than comparison and a
  conditional select. Values of index type are words of the target's index width;
  \<open>dim_size\<close> gives the run-time extents of a buffer and \<open>tensor_elem\<close> the
  elements of a tensor, already as index values, so that an index cast keeps the value.
\<close>

fun cmpi :: "CmpIPredicate \<Rightarrow> 'a::len word \<Rightarrow> 'a word \<Rightarrow> bool" where
  "cmpi eq a b = (a = b)"
| "cmpi ne a b = (a \<noteq> b)"
| "cmpi slt a b = (sint a < sint b)"
| "cmpi sle a b = (sint a \<le> sint b)"
| "cmpi sgt a b = (sint b < sint a)"
| "cmpi sge a b = (sint b \<le> sint a)"
| "cmpi ult a b = (a < b)"
| "cmpi ule a b = (a \<le> b)"
| "cmpi ugt a b = (b < a)"
| "cmpi uge a b = (b \<le> a)"

fun eval :: "(val \<Rightarrow> nat \<Rightarrow> 'a::len word) \<Rightarrow> (val \<Rightarrow> 'a word \<Rightarrow> 'a word) \<Rightarrow> val \<Rightarrow> 'a word" where
  "eval dim_size tensor_elem (arith_ConstantIndexOp n) = word_of_int n"
| "eval dim_size tensor_elem (memref_DimOp v i) = dim_size v i"
| "eval dim_size tensor_elem (arith_MulIOp a b) =
     eval dim_size tensor_elem a * eval dim_size tensor_elem b"
| "eval dim_size tensor_elem (tensor_ExtractOp t i) =
     tensor_elem t (eval dim_size tensor_elem i)"
| "eval dim_size tensor_elem (arith_IndexCastOp t v) = eval dim_size tensor_elem v"
| "eval dim_size tensor_elem (arith_CmpIOp p a b) =
     (if cmpi p (eval dim_size tensor_elem a) (eval dim_size tensor_elem b) then 1 else 0)"
| "eval dim_size tensor_elem (arith_SelectOp c a b) =
     (if eval dim_size tensor_elem c \<noteq> 0 then eval dim_size tensor_elem a
      else eval dim_size tensor_elem b)"
| "eval dim_size tensor_elem v = 0"

section \<open>The values and operations the rewrites build, in closed form\<close>

text \<open>
  The statements below name the values the loops leave behind. Each definition of this
  section is a closed form; the lemmas of the next sections prove that the code computes
  exactly it.
\<close>

fun isUnrankedTensor :: "ty option \<Rightarrow> bool" where
  "isUnrankedTensor (Some (TensorTy (UnrankedTensorType e))) = True"
| "isUnrankedTensor t = False"

definition memref_type_of_tensor :: "tensor_type \<Rightarrow> memref_type" where
  "memref_type_of_tensor t =
     (case t of RankedTensorType s e \<Rightarrow> MemRefType s e IdentityLayout
      | UnrankedTensorType e \<Rightarrow> UnrankedMemRefType e 0)"

text \<open>
  The size value of operand dimension \<open>i\<close>: a run-time read where the static size is
  unknown, a constant otherwise.
\<close>

definition operand_size_val :: "val \<Rightarrow> shape \<Rightarrow> nat \<Rightarrow> val" where
  "operand_size_val opnd operand_shape i =
     (case operand_shape ! i of
        None \<Rightarrow> memref_DimOp opnd i
      | Some n \<Rightarrow> arith_ConstantIndexOp n)"

text \<open>
  The product of \<open>start\<close> with the sizes of the dimensions \<open>n - 1\<close> down to
  \<open>i + 1\<close>, multiplied in that order.
\<close>

definition running_product :: "val \<Rightarrow> shape \<Rightarrow> val \<Rightarrow> nat \<Rightarrow> nat \<Rightarrow> val" where
  "running_product opnd operand_shape start i n =
     foldl arith_MulIOp start (map (operand_size_val opnd operand_shape) (rev [Suc i..<n]))"

text \<open>The operations the iterations \<open>n - 1, ..., 0\<close> of the first loop insert.\<close>

fun scan_ops :: "val \<Rightarrow> shape \<Rightarrow> val \<Rightarrow> nat \<Rightarrow> val list" where
  "scan_ops opnd operand_shape start 0 = []"
| "scan_ops opnd operand_shape start (Suc i) =
     (if 0 < i
      then [operand_size_val opnd operand_shape i,
            arith_MulIOp start (operand_size_val opnd operand_shape i)]
           @ scan_ops opnd operand_shape
               (arith_MulIOp start (operand_size_val opnd operand_shape i)) i
      else [operand_size_val opnd operand_shape i])"

fun is_DimOp :: "val \<Rightarrow> bool" where
  "is_DimOp (memref_DimOp v i) = True"
| "is_DimOp v = False"

text \<open>
  Operations that compute an index or a truth value, as opposed to those that make,
  view or copy a buffer.
\<close>

fun is_index_computation :: "val \<Rightarrow> bool" where
  "is_index_computation (arith_ConstantIndexOp n) = True"
| "is_index_computation (memref_DimOp v i) = True"
| "is_index_computation (arith_MulIOp a b) = True"
| "is_index_computation (tensor_ExtractOp t i) = True"
| "is_index_computation (arith_IndexCastOp t v) = True"
| "is_index_computation (arith_CmpIOp p a b) = True"
| "is_index_computation (arith_SelectOp c a b) = True"
| "is_index_computation v = False"

text \<open>The target size of result dimension \<open>i\<close>, read from the shape operand.\<close>

definition result_dim_size_val :: "Operation \<Rightarrow> nat \<Rightarrow> val" where
  "result_dim_size_val op i =
     (let extracted = tensor_ExtractOp (output_dimensions op) (arith_ConstantIndexOp (int i))
      in if isIndex (type_of extracted) then extracted
         else arith_IndexCastOp IndexType extracted)"

definition extract_ops :: "Operation \<Rightarrow> nat \<Rightarrow> val list" where
  "extract_ops op i =
     (let i_val = arith_ConstantIndexOp (int i);
          extracted = tensor_ExtractOp (output_dimensions op) i_val
      in if isIndex (type_of extracted) then [i_val, extracted]
         else [i_val, extracted, arith_IndexCastOp IndexType extracted])"

definition size_choice :: "shape \<Rightarrow> Operation \<Rightarrow> nat \<Rightarrow> val OpFoldResult" where
  "size_choice result_shape op d =
     (case result_shape ! d of
        None \<Rightarrow> OfrValue (result_dim_size_val op d)
      | Some n \<Rightarrow> OfrAttr n)"

definition is_expansion_val :: "val list \<Rightarrow> Operation \<Rightarrow> nat \<Rightarrow> nat \<Rightarrow> val" where
  "is_expansion_val operand_sizes op d i =
     arith_CmpIOp slt (operand_sizes ! i) (result_dim_size_val op d)"

definition stride_choice ::
  "(int \<rightharpoonup> nat) \<Rightarrow> val \<Rightarrow> val list \<Rightarrow> val list \<Rightarrow> Operation \<Rightarrow> nat \<Rightarrow> val OpFoldResult" where
  "stride_choice m zero operand_sizes operand_strides op d =
     (case m (int d) of
        None \<Rightarrow> OfrValue zero
      | Some i \<Rightarrow> OfrValue (arith_SelectOp (is_expansion_val operand_sizes op d i) zero
                            (operand_strides ! i)))"

definition result_ops ::
  "(int \<rightharpoonup> nat) \<Rightarrow> val \<Rightarrow> val list \<Rightarrow> val list \<Rightarrow> Operation \<Rightarrow> nat \<Rightarrow> val list" where
  "result_ops m zero operand_sizes operand_strides op d =
     extract_ops op d @
     (case m (int d) of
        None \<Rightarrow> []
      | Some i \<Rightarrow> [is_expansion_val operand_sizes op d i,
                   arith_SelectOp (is_expansion_val operand_sizes op d i) zero
                     (operand_strides ! i)])"

text \<open>
  The map the mapping fills when no key is refused: each entry stored under its key, a
  later one over an earlier one. \<open>no_reserved_key\<close> says that no key is refused.
\<close>

fun filled_map :: "int list \<Rightarrow> nat \<Rightarrow> (int \<rightharpoonup> nat) \<Rightarrow> (int \<rightharpoonup> nat)" where
  "filled_map [] index m = m"
| "filled_map (v # vs) index m = filled_map vs (Suc index) (m(narrow_to_int v \<mapsto> index))"

definition no_reserved_key :: "int list \<Rightarrow> bool" where
  "no_reserved_key bd =
     (\<forall>v\<in>set bd. narrow_to_int v \<noteq> getEmptyKey \<and> narrow_to_int v \<noteq> getTombstoneKey)"

text \<open>
  Every operand dimension the map gives for a result dimension of \<open>ds\<close> is below
  \<open>n\<close>: the second loop then reads inside its two vectors.
\<close>

definition map_in_range :: "(int \<rightharpoonup> nat) \<Rightarrow> nat \<Rightarrow> nat list \<Rightarrow> bool" where
  "map_in_range m n ds = (\<forall>d\<in>set ds. \<forall>i. m (int d) = Some i \<longrightarrow> i < n)"

definition mapping_fits :: "Operation \<Rightarrow> nat \<Rightarrow> nat \<Rightarrow> bool" where
  "mapping_fits op operand_rank result_rank =
     map_in_range (filled_map (broadcast_dimensions op) 0 Map.empty)
       operand_rank [0..<result_rank]"

definition operand_sizes_vals :: "val \<Rightarrow> shape \<Rightarrow> val list" where
  "operand_sizes_vals opnd operand_shape =
     map (operand_size_val opnd operand_shape) [0..<length operand_shape]"

definition operand_strides_vals :: "val \<Rightarrow> shape \<Rightarrow> val list" where
  "operand_strides_vals opnd operand_shape =
     map (\<lambda>i. running_product opnd operand_shape (arith_ConstantIndexOp 1) i
                (length operand_shape)) [0..<length operand_shape]"

definition view_strides :: "Operation \<Rightarrow> val \<Rightarrow> shape \<Rightarrow> nat \<Rightarrow> val OpFoldResult list" where
  "view_strides op opnd operand_shape result_rank =
     map (stride_choice (filled_map (broadcast_dimensions op) 0 Map.empty)
            (arith_ConstantIndexOp 0) (operand_sizes_vals opnd operand_shape)
            (operand_strides_vals opnd operand_shape) op) [0..<result_rank]"

definition view_sizes :: "Operation \<Rightarrow> shape \<Rightarrow> val OpFoldResult list" where
  "view_sizes op result_shape = map (size_choice result_shape op) [0..<length result_shape]"

definition view_val :: "Operation \<Rightarrow> val \<Rightarrow> shape \<Rightarrow> elem_ty \<Rightarrow> shape \<Rightarrow> val" where
  "view_val op opnd operand_shape operand_elem result_shape =
     memref_ReinterpretCastOp
       (MemRefType result_shape operand_elem
          (StridedLinearLayout (replicate (length result_shape) None) (Some 0)))
       opnd (OfrAttr 0) (view_sizes op result_shape)
       (view_strides op opnd operand_shape (length result_shape))"

definition view_index_ops :: "Operation \<Rightarrow> val \<Rightarrow> shape \<Rightarrow> nat \<Rightarrow> val list" where
  "view_index_ops op opnd operand_shape result_rank =
     [arith_ConstantIndexOp 0, arith_ConstantIndexOp 1]
     @ scan_ops opnd operand_shape (arith_ConstantIndexOp 1) (length operand_shape)
     @ concat (map (result_ops (filled_map (broadcast_dimensions op) 0 Map.empty)
                      (arith_ConstantIndexOp 0) (operand_sizes_vals opnd operand_shape)
                      (operand_strides_vals opnd operand_shape) op) [0..<result_rank])"

fun getStrides :: "val \<Rightarrow> val OpFoldResult list" where
  "getStrides (memref_ReinterpretCastOp t src off sizes strides) = strides"
| "getStrides v = []"

fun eval_ofr ::
  "(val \<Rightarrow> nat \<Rightarrow> 'a::len word) \<Rightarrow> (val \<Rightarrow> 'a word \<Rightarrow> 'a word) \<Rightarrow> val OpFoldResult \<Rightarrow> 'a word" where
  "eval_ofr dim_size tensor_elem (OfrValue v) = eval dim_size tensor_elem v"
| "eval_ofr dim_size tensor_elem (OfrAttr n) = word_of_int n"

definition copy_sizes :: "Operation \<Rightarrow> shape \<Rightarrow> val list" where
  "copy_sizes op result_shape =
     map (result_dim_size_val op) (filter (\<lambda>i. result_shape ! i = None) [0..<length result_shape])"

definition copy_index_ops :: "Operation \<Rightarrow> shape \<Rightarrow> val list" where
  "copy_index_ops op result_shape =
     concat (map (extract_ops op) (filter (\<lambda>i. result_shape ! i = None) [0..<length result_shape]))"

definition copy_alloc :: "Operation \<Rightarrow> elem_ty \<Rightarrow> shape \<Rightarrow> val" where
  "copy_alloc op elem result_shape =
     memref_AllocOp (MemRefType result_shape elem IdentityLayout) (copy_sizes op result_shape)"

text \<open>
  The reading of the mapping taken when the indices are compared as they stand: an operand
  dimension whose index in the mapping lies outside the result's dimensions is the
  operand dimension of no result dimension.
\<close>

definition out_of_range_ignored :: "int list \<Rightarrow> nat \<Rightarrow> bool" where
  "out_of_range_ignored bd result_rank =
     (\<forall>i<length bd. bd ! i < 0 \<or> int result_rank \<le> bd ! i \<longrightarrow>
        (\<forall>d<result_rank. filled_map bd 0 Map.empty (int d) \<noteq> Some i))"

text \<open>
  The state the driver creates from the options \<^verbatim>\<open>runOnOperation\<close> hands to it, and
  what \<^verbatim>\<open>runOnOperation\<close> makes of the driver's result.
\<close>

definition pass_state ::
  "BufferizationOptions \<Rightarrow> MhloBufferizationState \<Rightarrow>
     (rewriter \<Rightarrow> val \<Rightarrow> val option \<times> rewriter) \<Rightarrow> BufferizationState" where
  "pass_state partial_options default_state get_buffer =
     createBufferizationState
       (addDialectStateInitializer getDialectNamespace (\<lambda>u. default_state)
          (allowDialectInFilter getDialectNamespace partial_options)) get_buffer"

definition pass_result :: "error + LogicalResult \<times> rewriter \<Rightarrow> error + bool \<times> rewriter" where
  "pass_result r = (case r of Inl e \<Rightarrow> Inl e | Inr (res, rw) \<Rightarrow> Inr (res = failure, rw))"

section \<open>Example inputs\<close>

definition ex_rw :: rewriter where
  "ex_rw = \<lparr>inserted = [], replaced = []\<rparr>"

text \<open>
  An example driver lookup: the buffer of the tensor value number \<open>n\<close> is the external
  value number \<open>n + 100\<close>, of the memref type the tensor type gives; anything else has
  no buffer.
\<close>

definition ex_getBuffer :: "rewriter \<Rightarrow> val \<Rightarrow> val option \<times> rewriter" where
  "ex_getBuffer rw v =
     (case v of
        Extern n (TensorTy t) \<Rightarrow> (Some (Extern (n + 100) (MemRefTy (memref_type_of_tensor t))), rw)
      | _ \<Rightarrow> (None, rw))"

definition ex_state :: "bool \<Rightarrow> BufferizationState" where
  "ex_state copy =
     \<lparr>getBuffer = ex_getBuffer,
      getDialectState = (\<lambda>name. if name = ''mhlo''
                                then Some \<lparr>enforce_identity_map_fn = (\<lambda>op. copy)\<rparr> else None)\<rparr>"

definition ex_state_uninitialized :: BufferizationState where
  "ex_state_uninitialized = \<lparr>getBuffer = ex_getBuffer, getDialectState = (\<lambda>name. None)\<rparr>"

definition ex_f32 :: elem_ty where
  "ex_f32 = FloatType 32"

definition ex_unranked_in :: val where
  "ex_unranked_in = Extern 0 (TensorTy (UnrankedTensorType ex_f32))"

definition ex_ranked_in :: val where
  "ex_ranked_in = Extern 0 (TensorTy (RankedTensorType [Some 2, Some 6] ex_f32))"

definition ex_shape_in :: val where
  "ex_shape_in = Extern 1 (TensorTy (RankedTensorType [Some 2] (IntegerType 64)))"


text \<open>
  A broadcast of a \<open>1 x ?\<close> operand into a \<open>4 x ? x ?\<close> result, operand dimension 0
  mapped to result dimension 1 and operand dimension 1 to result dimension 2.
\<close>

definition ex_bcast_in :: val where
  "ex_bcast_in = Extern 0 (TensorTy (RankedTensorType [Some 1, None] ex_f32))"

definition ex_bcast_buf :: val where
  "ex_bcast_buf = Extern 100 (MemRefTy (MemRefType [Some 1, None] ex_f32 IdentityLayout))"

definition ex_dims_in :: val where
  "ex_dims_in = Extern 1 (TensorTy (RankedTensorType [Some 3] (IntegerType 64)))"

definition ex_bcast :: Operation where
  "ex_bcast = mhlo_DynamicBroadcastInDimOp ex_bcast_in ex_dims_in [1, 2]
                (RankedTensorType [Some 4, None, None] ex_f32)"

definition ex_view :: val where
  "ex_view = view_val ex_bcast ex_bcast_buf [Some 1, None] ex_f32 [Some 4, None, None]"

definition ex_view_rw :: rewriter where
  "ex_view_rw =
     ex_rw\<lparr>inserted := inserted ex_rw @ view_index_ops ex_bcast ex_bcast_buf [Some 1, None] 3
              @ [ex_view]\<rparr>"

text \<open>
  A broadcast whose mapping holds an index that fits 64 bits and not 32, one whose
  mapping names result dimension 1 twice and a result dimension that does not exist, one
  whose mapping has two entries for an operand of rank 1, and one whose mapping holds the
  largest \<^verbatim>\<open>int\<close>.
\<close>

definition ex_wrap_dims :: val where
  "ex_wrap_dims = Extern 1 (TensorTy (RankedTensorType [Some 1] IndexType))"

definition ex_wrap_buf :: val where
  "ex_wrap_buf = Extern 100 (MemRefTy (MemRefType [Some 1] ex_f32 IdentityLayout))"

definition ex_wrap :: Operation where
  "ex_wrap = mhlo_DynamicBroadcastInDimOp
               (Extern 0 (TensorTy (RankedTensorType [Some 1] ex_f32))) ex_wrap_dims
               [4294967296] (RankedTensorType [Some 5] ex_f32)"

definition ex_dup_in :: val where
  "ex_dup_in = Extern 0 (TensorTy (RankedTensorType [Some 1, Some 5, Some 1] ex_f32))"

definition ex_dup_buf :: val where
  "ex_dup_buf = Extern 100 (MemRefTy (MemRefType [Some 1, Some 5, Some 1] ex_f32 IdentityLayout))"

definition ex_dup :: Operation where
  "ex_dup = mhlo_DynamicBroadcastInDimOp ex_dup_in ex_shape_in [1, 1, 7]
              (RankedTensorType [Some 3, Some 5] ex_f32)"

definition ex_long :: Operation where
  "ex_long = mhlo_DynamicBroadcastInDimOp
               (Extern 0 (TensorTy (RankedTensorType [Some 1] ex_f32))) ex_wrap_dims
               [0, 0] (RankedTensorType [Some 5] ex_f32)"

definition ex_scan_buf :: val where
  "ex_scan_buf = Extern 100 (MemRefTy (MemRefType [Some 2, None, Some 4] ex_f32 IdentityLayout))"

definition ex_reserved :: Operation where
  "ex_reserved = mhlo_DynamicBroadcastInDimOp
                   (Extern 0 (TensorTy (RankedTensorType [Some 1] ex_f32))) ex_wrap_dims
                   [2147483647] (RankedTensorType [Some 5] ex_f32)"

text \<open>
  A broadcast of a buffer of 5 elements into a result of 5 elements whose mapping holds
  the index 4294967296, and the options and the policy of an example pass.
\<close>

definition ex_narrow_buf :: val where
  "ex_narrow_buf = Extern 100 (MemRefTy (MemRefType [Some 5] ex_f32 IdentityLayout))"

definition ex_narrow :: Operation where
  "ex_narrow = mhlo_DynamicBroadcastInDimOp
                 (Extern 0 (TensorTy (RankedTensorType [Some 5] ex_f32))) ex_wrap_dims
                 [4294967296] (RankedTensorType [Some 5] ex_f32)"

definition ex_options :: BufferizationOptions where
  "ex_options = \<lparr>dialectFilter = [], stateInitializers = []\<rparr>"

definition ex_no_copy :: MhloBufferizationState where
  "ex_no_copy = \<lparr>enforce_identity_map_fn = (\<lambda>op. False)\<rparr>"

section \<open>The first loop\<close>

lemma scan_step_eq:
  "scan_step opnd sh i (strides, sizes, ssf, b) =
     (strides[i := ssf], sizes[i := operand_size_val opnd sh i],
      (if 0 < i then arith_MulIOp ssf (operand_size_val opnd sh i) else ssf),
      b\<lparr>inserted := inserted b @
           (if 0 < i then [operand_size_val opnd sh i,
                           arith_MulIOp ssf (operand_size_val opnd sh i)]
            else [operand_size_val opnd sh i])\<rparr>)"
  by (cases "sh ! i") (auto simp add: scan_step_def operand_size_val_def create_def)

lemma drop_list_update_same:
  "n < length xs \<Longrightarrow> drop n (xs[n := x]) = x # drop (Suc n) xs"
  using Cons_nth_drop_Suc[of n "xs[n := x]"] by simp

lemma running_product_Suc:
  "i < n \<Longrightarrow> running_product opnd sh ssf i (Suc n) =
     running_product opnd sh (arith_MulIOp ssf (operand_size_val opnd sh n)) i n"
  by (simp add: running_product_def)

lemma running_product_self: "running_product opnd sh ssf n (Suc n) = ssf"
  by (simp add: running_product_def)

lemma scan_loop_eq:
  "n \<le> length strides \<Longrightarrow> n \<le> length sizes \<Longrightarrow>
   scan_loop opnd sh n (strides, sizes, ssf, b) =
     (map (\<lambda>i. running_product opnd sh ssf i n) [0..<n] @ drop n strides,
      map (operand_size_val opnd sh) [0..<n] @ drop n sizes,
      (if 0 < n then running_product opnd sh ssf 0 n else ssf),
      b\<lparr>inserted := inserted b @ scan_ops opnd sh ssf n\<rparr>)"
proof (induction n arbitrary: strides sizes ssf b)
  case 0
  then show ?case by simp
next
  case (Suc n)
  let ?sz = "operand_size_val opnd sh n"
  let ?ssf = "if 0 < n then arith_MulIOp ssf ?sz else ssf"
  have len: "n < length strides" "n < length sizes"
    using Suc.prems by simp_all
  have maps: "map (\<lambda>i. running_product opnd sh ?ssf i n) [0..<n] =
              map (\<lambda>i. running_product opnd sh ssf i (Suc n)) [0..<n]"
    by (rule map_cong) (auto simp: running_product_Suc)
  have fin: "(if 0 < n then running_product opnd sh ?ssf 0 n else ?ssf) =
             running_product opnd sh ssf 0 (Suc n)"
    by (cases n) (simp_all add: running_product_Suc running_product_self)
  show ?case
    using len
    by (simp add: scan_step_eq Suc.IH drop_list_update_same maps fin running_product_self)
qed

lemma running_product_last: "0 < n \<Longrightarrow> running_product opnd sh ssf (n - Suc 0) n = ssf"
  by (simp add: running_product_def)

lemma running_product_step:
  "Suc i < n \<Longrightarrow> running_product opnd sh ssf i n =
     arith_MulIOp (running_product opnd sh ssf (Suc i) n) (operand_size_val opnd sh (Suc i))"
  by (simp add: running_product_def upt_conv_Cons)

lemma eval_foldl_MulIOp:
  "eval D T (foldl arith_MulIOp s vs) = eval D T s * prod_list (map (eval D T) vs)"
  by (induction vs arbitrary: s) (simp_all add: mult.assoc)

lemma eval_running_product:
  "eval D T (running_product opnd sh ssf i n) =
     eval D T ssf * prod_list (map (\<lambda>j. eval D T (operand_size_val opnd sh j)) [Suc i..<n])"
  by (simp add: running_product_def eval_foldl_MulIOp rev_map[symmetric] comp_def)

lemma eval_operand_size_val:
  "eval D T (operand_size_val opnd sh i) =
     (case sh ! i of None \<Rightarrow> D opnd i | Some n \<Rightarrow> word_of_int n)"
  by (simp add: operand_size_val_def split: option.split)

lemma is_DimOp_operand_size_val:
  "is_DimOp (operand_size_val opnd sh i) = (sh ! i = None)"
  by (simp add: operand_size_val_def split: option.split)

lemma DimOp_operand_size_val:
  "sh ! i = None \<Longrightarrow> operand_size_val opnd sh i = memref_DimOp opnd i"
  by (simp add: operand_size_val_def)

lemma filter_DimOp_scan_ops:
  "filter is_DimOp (scan_ops opnd sh ssf n) =
     map (memref_DimOp opnd) (filter (\<lambda>i. sh ! i = None) (rev [0..<n]))"
  by (induction n arbitrary: ssf)
     (simp_all add: is_DimOp_operand_size_val DimOp_operand_size_val)

lemma scan_loop_initial:
  "scan_loop opnd sh (length sh)
      (replicate (length sh) one, replicate (length sh) one, one, b) =
     (map (\<lambda>i. running_product opnd sh one i (length sh)) [0..<length sh],
      map (operand_size_val opnd sh) [0..<length sh],
      (if 0 < length sh then running_product opnd sh one 0 (length sh) else one),
      b\<lparr>inserted := inserted b @ scan_ops opnd sh one (length sh)\<rparr>)"
  by (simp add: scan_loop_eq)

section \<open>The second loop\<close>

lemma extract_dim_size_eq:
  "extract_dim_size op i b =
     (result_dim_size_val op i, b\<lparr>inserted := inserted b @ extract_ops op i\<rparr>)"
  by (simp add: extract_dim_size_def result_dim_size_val_def extract_ops_def create_def Let_def)

lemma result_step_eq:
  "result_step op rs m zero osz ost d (sizes, strides, b) =
     (case m (int d) of
        Some i \<Rightarrow>
          if i < length osz \<and> i < length ost
          then Inr (sizes @ [size_choice rs op d],
                    strides @ [stride_choice m zero osz ost op d],
                    b\<lparr>inserted := inserted b @ result_ops m zero osz ost op d\<rparr>)
          else Inl IndexOutOfRange
      | None \<Rightarrow> Inr (sizes @ [size_choice rs op d],
                    strides @ [stride_choice m zero osz ost op d],
                    b\<lparr>inserted := inserted b @ result_ops m zero osz ost op d\<rparr>))"
  by (cases "rs ! d"; cases "m (int d)")
     (simp_all add: result_step_def extract_dim_size_eq size_choice_def stride_choice_def
        result_ops_def is_expansion_val_def create_def Let_def)

lemma map_in_range_Cons:
  "map_in_range m n (d # ds) =
     ((\<forall>i. m (int d) = Some i \<longrightarrow> i < n) \<and> map_in_range m n ds)"
  by (simp add: map_in_range_def)

lemma result_loop_ok:
  "map_in_range m (min (length osz) (length ost)) ds \<Longrightarrow>
   result_loop op rs m zero osz ost ds (sizes, strides, b) =
     Inr (sizes @ map (size_choice rs op) ds,
          strides @ map (stride_choice m zero osz ost op) ds,
          b\<lparr>inserted := inserted b @ concat (map (result_ops m zero osz ost op) ds)\<rparr>)"
proof (induction ds arbitrary: sizes strides b)
  case Nil
  then show ?case by simp
next
  case (Cons d ds)
  from Cons.prems have rest: "map_in_range m (min (length osz) (length ost)) ds"
    and here: "\<And>i. m (int d) = Some i \<Longrightarrow> i < length osz \<and> i < length ost"
    by (simp_all add: map_in_range_Cons)
  show ?case
  proof (cases "m (int d)")
    case None
    then show ?thesis by (simp add: result_step_eq Cons.IH[OF rest])
  next
    case (Some i)
    with here[OF Some] show ?thesis by (simp add: result_step_eq Cons.IH[OF rest])
  qed
qed

lemma result_loop_Inr:
  "result_loop op rs m zero osz ost ds (sizes, strides, b) = Inr st \<Longrightarrow>
   map_in_range m (min (length osz) (length ost)) ds"
proof (induction ds arbitrary: sizes strides b)
  case Nil
  then show ?case by (simp add: map_in_range_def)
next
  case (Cons d ds)
  show ?case
  proof (cases "m (int d)")
    case None
    with Cons.prems Cons.IH show ?thesis
      by (simp add: result_step_eq map_in_range_Cons)
  next
    case (Some i)
    show ?thesis
    proof (cases "i < length osz \<and> i < length ost")
      case True
      with Some Cons.prems Cons.IH show ?thesis
        by (simp add: result_step_eq map_in_range_Cons)
    next
      case False
      with Some Cons.prems show ?thesis
        by (simp add: result_step_eq)
    qed
  qed
qed

lemma result_loop_Inl:
  "result_loop op rs m zero osz ost ds st = Inl e \<Longrightarrow> e = IndexOutOfRange"
proof (induction ds arbitrary: st)
  case Nil
  then show ?case by simp
next
  case (Cons d ds)
  obtain sizes strides b where st: "st = (sizes, strides, b)" by (cases st)
  show ?case
  proof (cases "result_step op rs m zero osz ost d st")
    case (Inl e')
    with Cons.prems have "e = e'" by simp
    moreover from Inl have "e' = IndexOutOfRange"
      by (auto simp: st result_step_eq split: option.splits if_splits)
    ultimately show ?thesis by simp
  next
    case (Inr st1)
    with Cons.prems Cons.IH show ?thesis by simp
  qed
qed

lemma result_loop_fail:
  assumes "\<not> map_in_range m (min (length osz) (length ost)) ds"
  shows "result_loop op rs m zero osz ost ds st = Inl IndexOutOfRange"
proof (cases "result_loop op rs m zero osz ost ds st")
  case (Inl e)
  then show ?thesis using result_loop_Inl[OF Inl] by simp
next
  case (Inr st1)
  obtain sizes strides b where "st = (sizes, strides, b)" by (cases st)
  with Inr assms show ?thesis using result_loop_Inr by blast
qed

section \<open>The map from result to operand dimensions\<close>

lemma filled_map_snoc:
  "filled_map (bd @ [v]) idx m =
     (filled_map bd idx m)(narrow_to_int v \<mapsto> idx + length bd)"
  by (induction bd arbitrary: idx m) simp_all

lemma filled_map_iff:
  "filled_map bd 0 Map.empty k = Some i \<longleftrightarrow>
     i < length bd \<and> narrow_to_int (bd ! i) = k
     \<and> (\<forall>j. i < j \<and> j < length bd \<longrightarrow> narrow_to_int (bd ! j) \<noteq> k)"
proof (induction bd arbitrary: i rule: rev_induct)
  case Nil
  then show ?case by simp
next
  case (snoc v bd)
  let ?n = "length bd"
  show ?case
  proof (cases "narrow_to_int v = k")
    case True
    have "(i < Suc ?n \<and> narrow_to_int ((bd @ [v]) ! i) = k
           \<and> (\<forall>j. i < j \<and> j < Suc ?n \<longrightarrow> narrow_to_int ((bd @ [v]) ! j) \<noteq> k))
          \<longleftrightarrow> i = ?n"
    proof
      assume a: "i < Suc ?n \<and> narrow_to_int ((bd @ [v]) ! i) = k
           \<and> (\<forall>j. i < j \<and> j < Suc ?n \<longrightarrow> narrow_to_int ((bd @ [v]) ! j) \<noteq> k)"
      show "i = ?n"
      proof (rule ccontr)
        assume "i \<noteq> ?n"
        with a have "i < ?n" by simp
        moreover from a have "\<forall>j. i < j \<and> j < Suc ?n \<longrightarrow> narrow_to_int ((bd @ [v]) ! j) \<noteq> k"
          by simp
        ultimately have "narrow_to_int ((bd @ [v]) ! ?n) \<noteq> k" by blast
        with True show False by simp
      qed
    next
      assume "i = ?n"
      with True show "i < Suc ?n \<and> narrow_to_int ((bd @ [v]) ! i) = k
           \<and> (\<forall>j. i < j \<and> j < Suc ?n \<longrightarrow> narrow_to_int ((bd @ [v]) ! j) \<noteq> k)"
        by simp
    qed
    with True show ?thesis
      by (simp add: filled_map_snoc eq_commute[of "length bd" i])
  next
    case False
    have "(i < Suc ?n \<and> narrow_to_int ((bd @ [v]) ! i) = k
           \<and> (\<forall>j. i < j \<and> j < Suc ?n \<longrightarrow> narrow_to_int ((bd @ [v]) ! j) \<noteq> k))
          \<longleftrightarrow> (i < ?n \<and> narrow_to_int (bd ! i) = k
           \<and> (\<forall>j. i < j \<and> j < ?n \<longrightarrow> narrow_to_int (bd ! j) \<noteq> k))"
      (is "?L \<longleftrightarrow> ?R")
    proof
      assume l: ?L
      have "i \<noteq> ?n"
      proof
        assume "i = ?n"
        with l False show False by simp
      qed
      with l have i: "i < ?n" by simp
      with l have "narrow_to_int (bd ! i) = k" by (simp add: nth_append)
      moreover have "narrow_to_int (bd ! j) \<noteq> k" if "i < j \<and> j < ?n" for j
      proof -
        from l have "\<forall>j. i < j \<and> j < Suc ?n \<longrightarrow> narrow_to_int ((bd @ [v]) ! j) \<noteq> k"
          by simp
        moreover from that have "i < j \<and> j < Suc ?n" by simp
        ultimately have "narrow_to_int ((bd @ [v]) ! j) \<noteq> k" by blast
        with that show ?thesis by (simp add: nth_append)
      qed
      ultimately show ?R using i by simp
    next
      assume r: ?R
      have "narrow_to_int ((bd @ [v]) ! j) \<noteq> k" if "i < j \<and> j < Suc ?n" for j
      proof (cases "j = ?n")
        case True
        with False show ?thesis by simp
      next
        case False
        with that have "j < ?n" by simp
        with that r show ?thesis by (simp add: nth_append)
      qed
      with r show ?L by (simp add: nth_append)
    qed
    with False show ?thesis
      by (simp add: filled_map_snoc snoc.IH)
  qed
qed

lemma filled_map_None:
  "filled_map bd 0 Map.empty k = None \<longleftrightarrow> k \<notin> narrow_to_int ` set bd"
proof (induction bd rule: rev_induct)
  case Nil
  then show ?case by simp
next
  case (snoc v bd)
  then show ?case by (auto simp: filled_map_snoc)
qed

lemma filled_map_in_range:
  "map_in_range (filled_map bd 0 Map.empty) (length bd) ds"
  by (simp add: map_in_range_def filled_map_iff)

lemma build_output_to_input_dim_eq:
  "build_output_to_input_dim bd idx m =
     (if no_reserved_key bd then Inr (filled_map bd idx m) else Inl DenseMapReservedKey)"
  by (induction bd arbitrary: idx m) (simp_all add: no_reserved_key_def)

lemma narrow_to_int_id:
  "- 2147483648 \<le> v \<Longrightarrow> v < 2147483648 \<Longrightarrow> narrow_to_int v = v"
  by (simp add: narrow_to_int_def)

lemma narrow_image_in_range:
  assumes "\<forall>v\<in>set bd. - 2147483648 \<le> v \<and> v < 2147483648"
  shows "narrow_to_int ` set bd = set bd"
proof -
  have "narrow_to_int v = v" if "v \<in> set bd" for v
    using that assms by (simp add: narrow_to_int_id)
  then show ?thesis by force
qed

lemma filled_map_plain:
  assumes "\<forall>v\<in>set bd. - 2147483648 \<le> v \<and> v < 2147483648"
  shows "(filled_map bd 0 Map.empty k = None \<longleftrightarrow> k \<notin> set bd)
    \<and> (\<forall>i. filled_map bd 0 Map.empty k = Some i \<longrightarrow> bd ! i = k)"
proof -
  have a: "filled_map bd 0 Map.empty k = None \<longleftrightarrow> k \<notin> set bd"
    by (simp add: filled_map_None narrow_image_in_range[OF assms])
  have b: "bd ! i = k" if "filled_map bd 0 Map.empty k = Some i" for i
  proof -
    from that have i: "i < length bd" and n: "narrow_to_int (bd ! i) = k"
      by (simp_all add: filled_map_iff)
    from i have "bd ! i \<in> set bd" by simp
    with assms have "narrow_to_int (bd ! i) = bd ! i" by (simp add: narrow_to_int_id)
    with n show ?thesis by simp
  qed
  from a b show ?thesis by blast
qed

section \<open>The view and the copy\<close>

lemma InsertDynamicMemrefCastOp_ok:
  assumes "type_of opnd = Some (MemRefTy (MemRefType osh oel ol))"
    and "getType op = RankedTensorType rsh rel"
    and "mapping_fits op (length osh) (length rsh)"
    and "no_reserved_key (broadcast_dimensions op)"
  shows "InsertDynamicMemrefCastOp op opnd b =
     Inr (view_val op opnd osh oel rsh,
          b\<lparr>inserted := inserted b @ view_index_ops op opnd osh (length rsh)
                          @ [view_val op opnd osh oel rsh]\<rparr>)"
proof -
  let ?m = "filled_map (broadcast_dimensions op) 0 Map.empty"
  have fits: "map_in_range ?m
      (min (length (operand_sizes_vals opnd osh)) (length (operand_strides_vals opnd osh)))
      [0..<length rsh]"
    using assms(3) by (simp add: mapping_fits_def operand_sizes_vals_def operand_strides_vals_def)
  show ?thesis
    using assms(1,2,4)
    by (simp add: InsertDynamicMemrefCastOp_def create_def scan_loop_initial
        build_output_to_input_dim_eq
        operand_sizes_vals_def[symmetric] operand_strides_vals_def[symmetric]
        result_loop_ok[OF fits] view_val_def view_sizes_def view_strides_def
        view_index_ops_def makeStridedLinearLayoutMap_def Let_def)
qed

lemma InsertDynamicMemrefCastOp_fail:
  assumes "type_of opnd = Some (MemRefTy (MemRefType osh oel ol))"
    and "getType op = RankedTensorType rsh rel"
    and "\<not> mapping_fits op (length osh) (length rsh)"
    and "no_reserved_key (broadcast_dimensions op)"
  shows "InsertDynamicMemrefCastOp op opnd b = Inl IndexOutOfRange"
proof -
  let ?m = "filled_map (broadcast_dimensions op) 0 Map.empty"
  have fits: "\<not> map_in_range ?m
      (min (length (operand_sizes_vals opnd osh)) (length (operand_strides_vals opnd osh)))
      [0..<length rsh]"
    using assms(3) by (simp add: mapping_fits_def operand_sizes_vals_def operand_strides_vals_def)
  show ?thesis
    using assms(1,2,4)
    by (simp add: InsertDynamicMemrefCastOp_def create_def scan_loop_initial
        build_output_to_input_dim_eq
        operand_sizes_vals_def[symmetric] operand_strides_vals_def[symmetric]
        result_loop_fail[OF fits] Let_def)
qed

lemma InsertDynamicMemrefCastOp_reserved:
  assumes "type_of opnd = Some (MemRefTy (MemRefType osh oel ol))"
    and "getType op = RankedTensorType rsh rel"
    and "\<not> no_reserved_key (broadcast_dimensions op)"
  shows "InsertDynamicMemrefCastOp op opnd b = Inl DenseMapReservedKey"
  using assms
  by (simp add: InsertDynamicMemrefCastOp_def create_def scan_loop_initial
      build_output_to_input_dim_eq Let_def split: prod.splits)

lemma InsertDynamicMemrefCastOp_Inl:
  "InsertDynamicMemrefCastOp op opnd b = Inl e \<Longrightarrow>
     e = CastFailed \<or> e = IndexOutOfRange \<or> e = DenseMapReservedKey"
  by (auto simp: InsertDynamicMemrefCastOp_def create_def Let_def build_output_to_input_dim_eq
      split: option.splits ty.splits memref_type.splits tensor_type.splits sum.splits prod.splits
        if_splits
      dest: result_loop_Inl)

lemma InsertDynamicMemrefCastOp_Inr:
  assumes "InsertDynamicMemrefCastOp op opnd b = Inr r"
    and "type_of opnd = Some (MemRefTy (MemRefType osh oel ol))"
    and "getType op = RankedTensorType rsh rel"
  shows "mapping_fits op (length osh) (length rsh)"
    and "no_reserved_key (broadcast_dimensions op)"
proof -
  show nr: "no_reserved_key (broadcast_dimensions op)"
    using assms(1) InsertDynamicMemrefCastOp_reserved[OF assms(2,3), of b] by auto
  show "mapping_fits op (length osh) (length rsh)"
    using assms(1) InsertDynamicMemrefCastOp_fail[OF assms(2,3) _ nr, of b] by auto
qed

lemma index_computation_operand_size_val [simp]:
  "is_index_computation (operand_size_val opnd sh i)"
  by (simp add: operand_size_val_def split: option.split)

lemma index_computation_scan_ops:
  "x \<in> set (scan_ops opnd sh ssf n) \<Longrightarrow> is_index_computation x"
  by (induction n arbitrary: ssf) (auto split: if_splits)

lemma index_computation_extract_ops:
  "x \<in> set (extract_ops op i) \<Longrightarrow> is_index_computation x"
  by (auto simp: extract_ops_def Let_def split: if_splits)

lemma index_computation_result_ops:
  "x \<in> set (result_ops m zero osz ost op d) \<Longrightarrow> is_index_computation x"
  by (auto simp: result_ops_def is_expansion_val_def split: option.splits
      dest: index_computation_extract_ops)

lemma index_computation_view_index_ops:
  "x \<in> set (view_index_ops op opnd sh r) \<Longrightarrow> is_index_computation x"
  by (auto simp: view_index_ops_def
      dest: index_computation_scan_ops index_computation_result_ops)

lemma index_computation_copy_index_ops:
  "x \<in> set (copy_index_ops op sh) \<Longrightarrow> is_index_computation x"
  by (auto simp: copy_index_ops_def dest: index_computation_extract_ops)

lemma CreateCopy_loop_eq:
  "CreateCopy_loop op sh ds (dyn, b) =
     (dyn @ map (result_dim_size_val op) (filter (\<lambda>i. sh ! i = None) ds),
      b\<lparr>inserted := inserted b @ concat (map (extract_ops op) (filter (\<lambda>i. sh ! i = None) ds))\<rparr>)"
  by (induction ds arbitrary: dyn b) (simp_all add: extract_dim_size_eq)

lemma CreateCopy_eq:
  "type_of broadcasted = Some (MemRefTy (MemRefType sh el lay)) \<Longrightarrow>
   CreateCopy op broadcasted b =
     Inr (copy_alloc op el sh,
          b\<lparr>inserted := inserted b @ copy_index_ops op sh
                @ [copy_alloc op el sh, memref_CopyOp broadcasted (copy_alloc op el sh)]\<rparr>)"
  by (simp add: CreateCopy_def CreateCopy_loop_eq create_def copy_alloc_def copy_sizes_def
      copy_index_ops_def Let_def)

lemma CreateCopy_Inl: "CreateCopy op broadcasted b = Inl e \<Longrightarrow> e = CastFailed"
  by (auto simp: CreateCopy_def create_def Let_def
      split: option.splits ty.splits memref_type.splits prod.splits)

lemma type_of_view_val:
  "type_of (view_val op opnd osh oel rsh) =
     Some (MemRefTy (MemRefType rsh oel
        (StridedLinearLayout (replicate (length rsh) None) (Some 0))))"
  by (simp add: view_val_def)

lemma view_strides_nth:
  assumes "d < r"
  shows "view_strides op opnd osh r ! d =
     stride_choice (filled_map (broadcast_dimensions op) 0 Map.empty)
       (arith_ConstantIndexOp 0) (operand_sizes_vals opnd osh) (operand_strides_vals opnd osh) op d"
  using assms by (simp add: view_strides_def)

lemma result_ops_in_view_index_ops:
  assumes "d < r"
  shows "set (result_ops (filled_map (broadcast_dimensions op) 0 Map.empty)
       (arith_ConstantIndexOp 0) (operand_sizes_vals opnd osh) (operand_strides_vals opnd osh) op d)
     \<subseteq> set (view_index_ops op opnd osh r)"
  using assms by (auto simp: view_index_ops_def)

lemma not_unranked_cases:
  "\<not> isUnrankedTensor t \<Longrightarrow>
     (case t of Some (TensorTy (UnrankedTensorType e)) \<Rightarrow> f e | _ \<Rightarrow> g) = g"
  by (cases t rule: isUnrankedTensor.cases) simp_all

lemma InsertDynamicMemrefCastOp_result:
  assumes "InsertDynamicMemrefCastOp op buf b = Inr (view, b1)"
    and "type_of buf = Some (MemRefTy (MemRefType osh oel ol))"
    and "getType op = RankedTensorType rsh rel"
  shows "view = view_val op buf osh oel rsh"
    and "b1 = b\<lparr>inserted := inserted b @ view_index_ops op buf osh (length rsh) @ [view]\<rparr>"
proof -
  note fits = InsertDynamicMemrefCastOp_Inr[OF assms]
  from assms(1) InsertDynamicMemrefCastOp_ok[OF assms(2,3) fits, of b]
  show "view = view_val op buf osh oel rsh"
    and "b1 = b\<lparr>inserted := inserted b @ view_index_ops op buf osh (length rsh) @ [view]\<rparr>"
    by auto
qed

lemma DynamicBroadcastInDimOpInterface_bufferize_eq:
  assumes gb: "getBuffer st rw opnd = (Some buf, rw_a)"
    and ins: "InsertDynamicMemrefCastOp op buf rw_a = Inr (view, rw_b)"
    and t: "type_of buf = Some (MemRefTy (MemRefType osh oel ol))"
    and op: "op = mhlo_DynamicBroadcastInDimOp opnd odims bd (RankedTensorType rsh rel)"
    and ds: "getDialectState st getDialectNamespace = Some ds"
  shows "DynamicBroadcastInDimOpInterface_bufferize op rw st =
     (if enforce_identity_map_fn ds op
      then Inr (success,
             rw_b\<lparr>inserted := inserted rw_b @ copy_index_ops op rsh
                     @ [copy_alloc op oel rsh, memref_CopyOp view (copy_alloc op oel rsh)],
                  replaced := replaced rw_b @ [(op, copy_alloc op oel rsh)]\<rparr>)
      else Inr (success, rw_b\<lparr>replaced := replaced rw_b @ [(op, view)]\<rparr>))"
proof -
  have g: "getType op = RankedTensorType rsh rel" by (simp add: op)
  have v: "view = view_val op buf osh oel rsh"
    using InsertDynamicMemrefCastOp_result(1)[OF ins t g] .
  have tv: "type_of view = Some (MemRefTy (MemRefType rsh oel
        (StridedLinearLayout (replicate (length rsh) None) (Some 0))))"
    by (simp add: v type_of_view_val)
  show ?thesis
    unfolding op
    using gb ins[unfolded op] ds
    by (simp add: DynamicBroadcastInDimOpInterface_bufferize_def
        CreateCopy_eq[OF tv] replaceOpWithBufferizedValues_def)
qed

lemma filter_DimOp_extract_ops: "filter is_DimOp (extract_ops op d) = []"
  by (simp add: extract_ops_def Let_def)

lemma filter_DimOp_result_ops: "filter is_DimOp (result_ops m zero osz ost op d) = []"
  by (simp add: result_ops_def filter_DimOp_extract_ops is_expansion_val_def split: option.split)

lemma filter_DimOp_concat_result_ops:
  "filter is_DimOp (concat (map (result_ops m zero osz ost op) ds)) = []"
  by (induction ds) (simp_all add: filter_DimOp_result_ops)

lemma filter_DimOp_view_index_ops:
  "filter is_DimOp (view_index_ops op opnd sh r) =
     map (memref_DimOp opnd) (filter (\<lambda>i. sh ! i = None) (rev [0..<length sh]))"
  by (simp add: view_index_ops_def filter_DimOp_scan_ops filter_DimOp_concat_result_ops)

section \<open>Errors of the rewrites and the pass\<close>

lemma ReshapeOpInterface_bufferize_error:
  "ReshapeOpInterface_bufferize op rw st = Inl e \<Longrightarrow> e = CastFailed"
  by (auto simp: ReshapeOpInterface_bufferize_def Let_def
      split: Operation.splits option.splits ty.splits tensor_type.splits prod.splits)

lemma DynamicReshapeOpInterface_bufferize_error:
  "DynamicReshapeOpInterface_bufferize op rw st = Inl e \<Longrightarrow> e = CastFailed"
  by (auto simp: DynamicReshapeOpInterface_bufferize_def Let_def
      split: Operation.splits option.splits prod.splits)

lemma DynamicBroadcastInDimOpInterface_bufferize_error:
  assumes "DynamicBroadcastInDimOpInterface_bufferize op rw st = Inl e"
    and "getDialectState st getDialectNamespace \<noteq> None"
  shows "e = CastFailed \<or> e = IndexOutOfRange \<or> e = DenseMapReservedKey"
  using assms
  by (auto simp: DynamicBroadcastInDimOpInterface_bufferize_def
      split: Operation.splits option.splits tensor_type.splits prod.splits sum.splits if_splits
      dest: InsertDynamicMemrefCastOp_Inl CreateCopy_Inl)

lemma bufferize_initialized:
  assumes "getDialectState st getDialectNamespace \<noteq> None"
  shows "bufferize i op rw st \<noteq> Inl DialectStateNotInitialized"
proof (cases i)
  case ReshapeOpInterface
  then show ?thesis using ReshapeOpInterface_bufferize_error by fastforce
next
  case DynamicReshapeOpInterface
  then show ?thesis using DynamicReshapeOpInterface_bufferize_error by fastforce
next
  case DynamicBroadcastInDimOpInterface
  then show ?thesis
    using DynamicBroadcastInDimOpInterface_bufferize_error[OF _ assms] by fastforce
qed

lemma bufferizeOps_initialized:
  assumes "getDialectState st getDialectNamespace \<noteq> None"
  shows "bufferizeOps ops st rw \<noteq> Inl DialectStateNotInitialized"
proof (induction ops arbitrary: rw)
  case Nil
  then show ?case by simp
next
  case (Cons op ops)
  show ?case
    using bufferize_initialized[OF assms] Cons.IH
    by (auto split: sum.splits prod.splits LogicalResult.splits)
qed

lemma map_of_append_last:
  "map_of (xs @ [(k, v)]) k \<noteq> None"
  by (simp add: map_of_append split: option.splits)

lemma runOnOperation_state:
  "getDialectState
     (createBufferizationState
        (addDialectStateInitializer getDialectNamespace (\<lambda>u. default_state)
           (allowDialectInFilter getDialectNamespace partial_options)) get_buffer)
     getDialectNamespace \<noteq> None"
  by (simp add: createBufferizationState_def addDialectStateInitializer_def
      allowDialectInFilter_def map_of_append_last)

lemma runOnOperation_eq:
  "runOnOperation partial_options default_state get_buffer module rw0 =
     pass_result (bufferizeOps module (pass_state partial_options default_state get_buffer) rw0)"
  by (simp add: runOnOperation_def bufferizeOp_def pass_state_def pass_result_def Let_def
      split: sum.splits prod.splits)

lemma pass_state_getBuffer:
  "getBuffer (pass_state partial_options default_state get_buffer) = get_buffer"
  by (simp add: pass_state_def createBufferizationState_def)

lemma pass_state_initialized:
  "getDialectState (pass_state partial_options default_state get_buffer) getDialectNamespace
     \<noteq> None"
  unfolding pass_state_def by (rule runOnOperation_state)

lemma map_of_initializers_None:
  "k \<notin> fst ` set xs \<Longrightarrow> map_of (map (\<lambda>(name, fn). (name, fn ())) xs) k = None"
  by (induction xs) auto

lemma pass_state_default:
  assumes "getDialectNamespace \<notin> fst ` set (stateInitializers partial_options)"
  shows "getDialectState (pass_state partial_options default_state get_buffer)
           getDialectNamespace = Some default_state"
  using assms
  by (simp add: pass_state_def createBufferizationState_def addDialectStateInitializer_def
      allowDialectInFilter_def map_of_append map_add_def map_of_initializers_None)

lemma runOnOperation_single_broadcast:
  assumes gb: "get_buffer rw0 opnd = (Some buf, rw_a)"
    and ins: "InsertDynamicMemrefCastOp op buf rw_a = Inr (view, rw_b)"
    and t: "type_of buf = Some (MemRefTy (MemRefType osh oel ol))"
    and op: "op = mhlo_DynamicBroadcastInDimOp opnd odims bd (RankedTensorType rsh rel)"
    and ds: "getDialectNamespace \<notin> fst ` set (stateInitializers partial_options)"
  shows "runOnOperation partial_options default_state get_buffer [op] rw0 =
     Inr (False,
       if enforce_identity_map_fn default_state op
       then rw_b\<lparr>inserted := inserted rw_b @ copy_index_ops op rsh
                   @ [copy_alloc op oel rsh, memref_CopyOp view (copy_alloc op oel rsh)],
                 replaced := replaced rw_b @ [(op, copy_alloc op oel rsh)]\<rparr>
       else rw_b\<lparr>replaced := replaced rw_b @ [(op, view)]\<rparr>)"
proof -
  let ?st = "pass_state partial_options default_state get_buffer"
  have gb': "getBuffer ?st rw0 opnd = (Some buf, rw_a)"
    by (simp add: pass_state_getBuffer gb)
  note eq = DynamicBroadcastInDimOpInterface_bufferize_eq[OF gb' ins t op pass_state_default[OF ds]]
  have reg: "registerBufferizableOpInterfaceExternalModels op = DynamicBroadcastInDimOpInterface"
    by (simp add: op)
  show ?thesis
    by (simp add: runOnOperation_eq reg eq pass_result_def)
qed

section \<open>The example broadcast\<close>

lemma ex_bcast_view:
  "InsertDynamicMemrefCastOp ex_bcast ex_bcast_buf ex_rw =
     Inr (view_val ex_bcast ex_bcast_buf [Some 1, None] ex_f32 [Some 4, None, None],
          ex_rw\<lparr>inserted := inserted ex_rw @ view_index_ops ex_bcast ex_bcast_buf [Some 1, None] 3
                  @ [view_val ex_bcast ex_bcast_buf [Some 1, None] ex_f32 [Some 4, None, None]]\<rparr>)"
proof -
  have fits: "mapping_fits ex_bcast (length [Some 1, None :: int option])
          (length [Some 4, None, None :: int option])"
    by (simp add: mapping_fits_def map_in_range_def ex_bcast_def narrow_to_int_def)
  have nr: "no_reserved_key (broadcast_dimensions ex_bcast)"
    by (simp add: no_reserved_key_def ex_bcast_def narrow_to_int_def getEmptyKey_def
        getTombstoneKey_def)
  from InsertDynamicMemrefCastOp_ok[OF _ _ fits nr,
      of ex_bcast_buf ex_f32 IdentityLayout ex_f32 ex_rw]
  show ?thesis
    by (simp add: ex_bcast_buf_def ex_bcast_def numeral_3_eq_3)
qed

lemma ex_bcast_facts:
  "InsertDynamicMemrefCastOp ex_bcast ex_bcast_buf ex_rw = Inr (ex_view, ex_view_rw)"
  "type_of ex_bcast_buf = Some (MemRefTy (MemRefType [Some 1, None] ex_f32 IdentityLayout))"
  "getType ex_bcast = RankedTensorType [Some 4, None, None] ex_f32"
  "ex_bcast = mhlo_DynamicBroadcastInDimOp ex_bcast_in ex_dims_in [1, 2]
                (RankedTensorType [Some 4, None, None] ex_f32)"
  "getBuffer (ex_state c) ex_rw ex_bcast_in = (Some ex_bcast_buf, ex_rw)"
  "getBuffer ex_state_uninitialized ex_rw ex_bcast_in = (Some ex_bcast_buf, ex_rw)"
  using ex_bcast_view
  by (simp_all add: ex_view_def ex_view_rw_def ex_bcast_buf_def ex_bcast_def ex_state_def
      ex_state_uninitialized_def ex_getBuffer_def ex_bcast_in_def memref_type_of_tensor_def)

lemma ex_dim_size_vals:
  "result_dim_size_val ex_bcast i =
     arith_IndexCastOp IndexType (tensor_ExtractOp ex_dims_in (arith_ConstantIndexOp (int i)))"
  by (simp add: result_dim_size_val_def ex_bcast_def ex_dims_in_def isIndex_def)

section \<open>Declared effects\<close>

text \<open>
  C6. For every operand, the Reshape strategy and the DynamicReshape strategy declare
  the same effects: the operand's memory is neither read nor written, the aliasing
  results are exactly result 0, and the buffer relation of the result is Equivalent.
\<close>

theorem reshape_strategies_declared_effects:
  "bufferizesToMemoryRead ReshapeOpInterface op n st = False
   \<and> bufferizesToMemoryWrite ReshapeOpInterface op n st = False
   \<and> getAliasingOpResult ReshapeOpInterface op n st = [getResult op 0]
   \<and> bufferRelation ReshapeOpInterface op r st = BufferRelation_Equivalent
   \<and> bufferizesToMemoryRead DynamicReshapeOpInterface op n st = False
   \<and> bufferizesToMemoryWrite DynamicReshapeOpInterface op n st = False
   \<and> getAliasingOpResult DynamicReshapeOpInterface op n st = [getResult op 0]
   \<and> bufferRelation DynamicReshapeOpInterface op r st = BufferRelation_Equivalent"
  by simp

text \<open>
  C8. For every operand, the DynamicBroadcastInDim strategy declares that the operand's
  memory is read and not written, its aliasing results are exactly result 0, and the
  buffer relation of its result is the value that gives no aliasing guarantee
  (\<^verbatim>\<open>BufferRelation::None\<close>, the spec's Unknown), not Equivalent.
\<close>

theorem broadcast_strategy_declared_effects:
  "bufferizesToMemoryRead DynamicBroadcastInDimOpInterface op n st = True
   \<and> bufferizesToMemoryWrite DynamicBroadcastInDimOpInterface op n st = False
   \<and> getAliasingOpResult DynamicBroadcastInDimOpInterface op n st = [getResult op 0]
   \<and> bufferRelation DynamicBroadcastInDimOpInterface op r st = BufferRelation_None
   \<and> bufferRelation DynamicBroadcastInDimOpInterface op r st \<noteq> BufferRelation_Equivalent"
  by simp

section \<open>The reshape rewrites\<close>

text \<open>
  C5. The Reshape rewrite returns failure and leaves the rewriter as it was whenever
  the operand's tensor type is not unranked, in particular when it is ranked. When the
  operand is unranked and its buffer is obtained, the rewrite of a reshape to a ranked
  result succeeds: it inserts one \<^verbatim>\<open>memref.cast\<close> of the operand's buffer to the
  identity-layout memref type with the result's shape and element type, which replaces
  the operation.
\<close>

theorem reshape_bufferize:
  "(\<not> isUnrankedTensor (type_of opnd) \<longrightarrow>
      ReshapeOpInterface_bufferize (mhlo_ReshapeOp opnd res_ty) rw st = Inr (failure, rw))
   \<and> (type_of opnd = Some (TensorTy (RankedTensorType s e)) \<longrightarrow>
      ReshapeOpInterface_bufferize (mhlo_ReshapeOp opnd res_ty) rw st = Inr (failure, rw))
   \<and> (isUnrankedTensor (type_of opnd) \<and> getBuffer st rw opnd = (Some operand_buffer, rw_a) \<longrightarrow>
      ReshapeOpInterface_bufferize
          (mhlo_ReshapeOp opnd (RankedTensorType result_shape result_elem)) rw st =
        Inr (success,
          rw_a\<lparr>inserted := inserted rw_a @
                 [memref_CastOp (MemRefType result_shape result_elem IdentityLayout) operand_buffer],
              replaced := replaced rw_a @
                 [(mhlo_ReshapeOp opnd (RankedTensorType result_shape result_elem),
                   memref_CastOp (MemRefType result_shape result_elem IdentityLayout)
                     operand_buffer)]\<rparr>))"
proof (intro conjI impI)
  assume "\<not> isUnrankedTensor (type_of opnd)"
  then show "ReshapeOpInterface_bufferize (mhlo_ReshapeOp opnd res_ty) rw st = Inr (failure, rw)"
    by (simp add: ReshapeOpInterface_bufferize_def not_unranked_cases)
next
  assume "type_of opnd = Some (TensorTy (RankedTensorType s e))"
  then show "ReshapeOpInterface_bufferize (mhlo_ReshapeOp opnd res_ty) rw st = Inr (failure, rw)"
    by (simp add: ReshapeOpInterface_bufferize_def)
next
  assume a: "isUnrankedTensor (type_of opnd) \<and> getBuffer st rw opnd = (Some operand_buffer, rw_a)"
  then obtain e where "type_of opnd = Some (TensorTy (UnrankedTensorType e))"
    by (cases "type_of opnd" rule: isUnrankedTensor.cases) simp_all
  with a show "ReshapeOpInterface_bufferize
          (mhlo_ReshapeOp opnd (RankedTensorType result_shape result_elem)) rw st =
        Inr (success,
          rw_a\<lparr>inserted := inserted rw_a @
                 [memref_CastOp (MemRefType result_shape result_elem IdentityLayout) operand_buffer],
              replaced := replaced rw_a @
                 [(mhlo_ReshapeOp opnd (RankedTensorType result_shape result_elem),
                   memref_CastOp (MemRefType result_shape result_elem IdentityLayout)
                     operand_buffer)]\<rparr>)"
    by (simp add: ReshapeOpInterface_bufferize_def replaceOpWithNewBufferizedOp_def
        replaceOpWithBufferizedValues_def create_def Let_def)
qed

theorem reshape_bufferize_witness:
  "\<not> isUnrankedTensor (type_of ex_ranked_in)
   \<and> type_of ex_ranked_in = Some (TensorTy (RankedTensorType [Some 2, Some 6] ex_f32))
   \<and> ReshapeOpInterface_bufferize
         (mhlo_ReshapeOp ex_ranked_in (RankedTensorType [Some 3, Some 4] ex_f32))
         ex_rw (ex_state True) = Inr (failure, ex_rw)
   \<and> isUnrankedTensor (type_of ex_unranked_in)
   \<and> getBuffer (ex_state True) ex_rw ex_unranked_in =
         (Some (Extern 100 (MemRefTy (UnrankedMemRefType ex_f32 0))), ex_rw)
   \<and> ReshapeOpInterface_bufferize
         (mhlo_ReshapeOp ex_unranked_in (RankedTensorType [Some 3, Some 4] ex_f32))
         ex_rw (ex_state True) =
       Inr (success,
         \<lparr>inserted = [memref_CastOp (MemRefType [Some 3, Some 4] ex_f32 IdentityLayout)
                        (Extern 100 (MemRefTy (UnrankedMemRefType ex_f32 0)))],
          replaced = [(mhlo_ReshapeOp ex_unranked_in (RankedTensorType [Some 3, Some 4] ex_f32),
                       memref_CastOp (MemRefType [Some 3, Some 4] ex_f32 IdentityLayout)
                        (Extern 100 (MemRefTy (UnrankedMemRefType ex_f32 0))))]\<rparr>)"
proof -
  have ranked: "\<not> isUnrankedTensor (type_of ex_ranked_in)"
    and ranked_ty: "type_of ex_ranked_in = Some (TensorTy (RankedTensorType [Some 2, Some 6] ex_f32))"
    by (simp_all add: ex_ranked_in_def)
  have unranked: "isUnrankedTensor (type_of ex_unranked_in)"
    by (simp add: ex_unranked_in_def)
  have buf: "getBuffer (ex_state True) ex_rw ex_unranked_in =
      (Some (Extern 100 (MemRefTy (UnrankedMemRefType ex_f32 0))), ex_rw)"
    by (simp add: ex_state_def ex_getBuffer_def ex_unranked_in_def memref_type_of_tensor_def)
  note thm1 = reshape_bufferize[where opnd = ex_ranked_in and rw = ex_rw
      and st = "ex_state True" and res_ty = "RankedTensorType [Some 3, Some 4] ex_f32"]
  note thm2 = reshape_bufferize[where opnd = ex_unranked_in and rw = ex_rw
      and st = "ex_state True" and rw_a = ex_rw
      and operand_buffer = "Extern 100 (MemRefTy (UnrankedMemRefType ex_f32 0))"
      and result_shape = "[Some 3, Some 4]" and result_elem = ex_f32]
  from thm1 ranked have fail: "ReshapeOpInterface_bufferize
         (mhlo_ReshapeOp ex_ranked_in (RankedTensorType [Some 3, Some 4] ex_f32))
         ex_rw (ex_state True) = Inr (failure, ex_rw)"
    by blast
  from thm2 unranked buf have ok: "ReshapeOpInterface_bufferize
         (mhlo_ReshapeOp ex_unranked_in (RankedTensorType [Some 3, Some 4] ex_f32))
         ex_rw (ex_state True) =
       Inr (success,
         ex_rw\<lparr>inserted := inserted ex_rw @
                  [memref_CastOp (MemRefType [Some 3, Some 4] ex_f32 IdentityLayout)
                     (Extern 100 (MemRefTy (UnrankedMemRefType ex_f32 0)))],
               replaced := replaced ex_rw @
                  [(mhlo_ReshapeOp ex_unranked_in (RankedTensorType [Some 3, Some 4] ex_f32),
                    memref_CastOp (MemRefType [Some 3, Some 4] ex_f32 IdentityLayout)
                     (Extern 100 (MemRefTy (UnrankedMemRefType ex_f32 0))))]\<rparr>)"
    by blast
  from ranked ranked_ty fail unranked buf ok show ?thesis
    by (simp add: ex_rw_def)
qed



section \<open>The strided view of the dynamic broadcast\<close>

text \<open>
  C2. The first loop computes the operand buffer's flattened linear strides right to
  left. After it, \<^verbatim>\<open>operand_sizes\<close> holds for each dimension its size value, a
  run-time read where the static size is unknown and a constant otherwise; the stride of
  the last dimension is the constant 1; the stride of every dimension to the left is the
  product of the stride and the size of the dimension to its right, hence, read at run
  time, the product of the sizes of all dimensions to its right; and the
  \<^verbatim>\<open>memref.dim\<close> operations inserted are exactly those of the dimensions whose static
  size is unknown.
\<close>

theorem flattened_strides_scan:
  "(case scan_loop opnd sh (length sh)
          (replicate (length sh) (arith_ConstantIndexOp 1),
           replicate (length sh) (arith_ConstantIndexOp 1), arith_ConstantIndexOp 1, b) of
     (operand_strides, operand_sizes, stride_so_far, b1) \<Rightarrow>
       length operand_strides = length sh \<and> length operand_sizes = length sh
       \<and> (\<forall>i<length sh. operand_sizes ! i = operand_size_val opnd sh i)
       \<and> (\<forall>i<length sh. eval D T (operand_sizes ! i) =
             (case sh ! i of None \<Rightarrow> D opnd i | Some n \<Rightarrow> word_of_int n))
       \<and> (0 < length sh \<longrightarrow> operand_strides ! (length sh - 1) = arith_ConstantIndexOp 1)
       \<and> (\<forall>i. Suc i < length sh \<longrightarrow>
             operand_strides ! i =
               arith_MulIOp (operand_strides ! Suc i) (operand_sizes ! Suc i))
       \<and> (\<forall>i<length sh. eval D T (operand_strides ! i) =
             prod_list (map (\<lambda>j. eval D T (operand_sizes ! j)) [Suc i..<length sh]))
       \<and> replaced b1 = replaced b
       \<and> (\<exists>ops. inserted b1 = inserted b @ ops
             \<and> filter is_DimOp ops =
                 map (memref_DimOp opnd) (filter (\<lambda>i. sh ! i = None) (rev [0..<length sh]))))
   \<and> (InsertDynamicMemrefCastOp op opnd b = Inr (view, b_view)
        \<and> type_of opnd = Some (MemRefTy (MemRefType sh oel ol))
        \<and> getType op = RankedTensorType rsh rel \<longrightarrow>
      inserted b_view = inserted b @ view_index_ops op opnd sh (length rsh) @ [view]
      \<and> filter is_DimOp (view_index_ops op opnd sh (length rsh) @ [view]) =
          map (memref_DimOp opnd) (filter (\<lambda>i. sh ! i = None) (rev [0..<length sh])))"
proof -
  let ?r = "length sh"
  let ?one = "arith_ConstantIndexOp 1"
  let ?strides = "map (\<lambda>i. running_product opnd sh ?one i ?r) [0..<?r]"
  let ?sizes = "map (operand_size_val opnd sh) [0..<?r]"
  have prod_cong: "map (\<lambda>j. eval D T (?sizes ! j)) [Suc i..<?r] =
                   map (\<lambda>j. eval D T (operand_size_val opnd sh j)) [Suc i..<?r]" for i
    by (rule map_cong) simp_all
  have sizes: "\<forall>i<?r. ?sizes ! i = operand_size_val opnd sh i"
    by simp
  have sizes_eval: "\<forall>i<?r. eval D T (?sizes ! i) =
      (case sh ! i of None \<Rightarrow> D opnd i | Some n \<Rightarrow> word_of_int n)"
    by (simp add: eval_operand_size_val)
  have last: "0 < ?r \<longrightarrow> ?strides ! (?r - 1) = ?one"
    by (simp add: running_product_last)
  have step: "\<forall>i. Suc i < ?r \<longrightarrow> ?strides ! i = arith_MulIOp (?strides ! Suc i) (?sizes ! Suc i)"
    by (simp add: running_product_step)
  have prod: "\<forall>i<?r. eval D T (?strides ! i) =
      prod_list (map (\<lambda>j. eval D T (?sizes ! j)) [Suc i..<?r])"
    by (simp add: eval_running_product prod_cong)
  have ops: "\<exists>ops. inserted (b\<lparr>inserted := inserted b @ scan_ops opnd sh ?one ?r\<rparr>) =
        inserted b @ ops
      \<and> filter is_DimOp ops =
          map (memref_DimOp opnd) (filter (\<lambda>i. sh ! i = None) (rev [0..<?r]))"
    by (rule exI[of _ "scan_ops opnd sh ?one ?r"]) (simp add: filter_DimOp_scan_ops)
  have scan: "case scan_loop opnd sh (length sh)
          (replicate (length sh) (arith_ConstantIndexOp 1),
           replicate (length sh) (arith_ConstantIndexOp 1), arith_ConstantIndexOp 1, b) of
     (operand_strides, operand_sizes, stride_so_far, b1) \<Rightarrow>
       length operand_strides = length sh \<and> length operand_sizes = length sh
       \<and> (\<forall>i<length sh. operand_sizes ! i = operand_size_val opnd sh i)
       \<and> (\<forall>i<length sh. eval D T (operand_sizes ! i) =
             (case sh ! i of None \<Rightarrow> D opnd i | Some n \<Rightarrow> word_of_int n))
       \<and> (0 < length sh \<longrightarrow> operand_strides ! (length sh - 1) = arith_ConstantIndexOp 1)
       \<and> (\<forall>i. Suc i < length sh \<longrightarrow>
             operand_strides ! i =
               arith_MulIOp (operand_strides ! Suc i) (operand_sizes ! Suc i))
       \<and> (\<forall>i<length sh. eval D T (operand_strides ! i) =
             prod_list (map (\<lambda>j. eval D T (operand_sizes ! j)) [Suc i..<length sh]))
       \<and> replaced b1 = replaced b
       \<and> (\<exists>ops. inserted b1 = inserted b @ ops
             \<and> filter is_DimOp ops =
                 map (memref_DimOp opnd) (filter (\<lambda>i. sh ! i = None) (rev [0..<length sh])))"
    unfolding scan_loop_initial prod.case
    using sizes sizes_eval last step prod ops by simp
  have whole: "(InsertDynamicMemrefCastOp op opnd b = Inr (view, b_view)
        \<and> type_of opnd = Some (MemRefTy (MemRefType sh oel ol))
        \<and> getType op = RankedTensorType rsh rel \<longrightarrow>
      inserted b_view = inserted b @ view_index_ops op opnd sh (length rsh) @ [view]
      \<and> filter is_DimOp (view_index_ops op opnd sh (length rsh) @ [view]) =
          map (memref_DimOp opnd) (filter (\<lambda>i. sh ! i = None) (rev [0..<length sh])))"
  proof (intro impI, elim conjE)
    assume r: "InsertDynamicMemrefCastOp op opnd b = Inr (view, b_view)"
      and t: "type_of opnd = Some (MemRefTy (MemRefType sh oel ol))"
      and g: "getType op = RankedTensorType rsh rel"
    note res = InsertDynamicMemrefCastOp_result[OF r t g]
    have ins: "inserted b_view = inserted b @ view_index_ops op opnd sh (length rsh) @ [view]"
      by (subst res(2), simp)
    have "\<not> is_DimOp view"
      by (simp add: res(1) view_val_def)
    then have "filter is_DimOp (view_index_ops op opnd sh (length rsh) @ [view]) =
          map (memref_DimOp opnd) (filter (\<lambda>i. sh ! i = None) (rev [0..<length sh]))"
      by (simp add: filter_DimOp_view_index_ops)
    with ins show "inserted b_view = inserted b @ view_index_ops op opnd sh (length rsh) @ [view]
      \<and> filter is_DimOp (view_index_ops op opnd sh (length rsh) @ [view]) =
          map (memref_DimOp opnd) (filter (\<lambda>i. sh ! i = None) (rev [0..<length sh]))"
      by simp
  qed
  from scan whole show ?thesis by (rule conjI)
qed

theorem flattened_strides_scan_witness:
  "(case scan_loop ex_scan_buf [Some 2, None, Some 4] 3
          (replicate 3 (arith_ConstantIndexOp 1),
           replicate 3 (arith_ConstantIndexOp 1), arith_ConstantIndexOp 1, ex_rw) of
     (operand_strides, operand_sizes, stride_so_far, b1) \<Rightarrow>
       operand_sizes = [arith_ConstantIndexOp 2, memref_DimOp ex_scan_buf 1,
                        arith_ConstantIndexOp 4]
       \<and> operand_strides ! 2 = arith_ConstantIndexOp 1
       \<and> operand_strides ! 1 = arith_MulIOp (arith_ConstantIndexOp 1) (arith_ConstantIndexOp 4)
       \<and> operand_strides ! 0 =
           arith_MulIOp (arith_MulIOp (arith_ConstantIndexOp 1) (arith_ConstantIndexOp 4))
             (memref_DimOp ex_scan_buf 1)
       \<and> eval (\<lambda>v i. 5) (\<lambda>t i. 0) (operand_strides ! 0) = (20 :: 64 word)
       \<and> filter is_DimOp (inserted b1) = [memref_DimOp ex_scan_buf 1])
   \<and> InsertDynamicMemrefCastOp ex_bcast ex_bcast_buf ex_rw = Inr (ex_view, ex_view_rw)
   \<and> type_of ex_bcast_buf = Some (MemRefTy (MemRefType [Some 1, None] ex_f32 IdentityLayout))
   \<and> getType ex_bcast = RankedTensorType [Some 4, None, None] ex_f32
   \<and> filter is_DimOp (inserted ex_view_rw) = [memref_DimOp ex_bcast_buf 1]"
proof -
  note scan = flattened_strides_scan[where sh = "[Some 2, None, Some 4]" and opnd = ex_scan_buf
      and b = ex_rw and D = "\<lambda>v i. 5 :: 64 word" and T = "\<lambda>t i. 0 :: 64 word"]
  note whole = flattened_strides_scan[where sh = "[Some 1, None]" and opnd = ex_bcast_buf
      and b = ex_rw and op = ex_bcast and view = ex_view and b_view = ex_view_rw
      and oel = ex_f32 and ol = IdentityLayout and rsh = "[Some 4, None, None]" and rel = ex_f32
      and D = "\<lambda>v i. 5 :: 64 word" and T = "\<lambda>t i. 0 :: 64 word"]
  have first: "case scan_loop ex_scan_buf [Some 2, None, Some 4] 3
          (replicate 3 (arith_ConstantIndexOp 1),
           replicate 3 (arith_ConstantIndexOp 1), arith_ConstantIndexOp 1, ex_rw) of
     (operand_strides, operand_sizes, stride_so_far, b1) \<Rightarrow>
       operand_sizes = [arith_ConstantIndexOp 2, memref_DimOp ex_scan_buf 1,
                        arith_ConstantIndexOp 4]
       \<and> operand_strides ! 2 = arith_ConstantIndexOp 1
       \<and> operand_strides ! 1 = arith_MulIOp (arith_ConstantIndexOp 1) (arith_ConstantIndexOp 4)
       \<and> operand_strides ! 0 =
           arith_MulIOp (arith_MulIOp (arith_ConstantIndexOp 1) (arith_ConstantIndexOp 4))
             (memref_DimOp ex_scan_buf 1)
       \<and> eval (\<lambda>v i. 5) (\<lambda>t i. 0) (operand_strides ! 0) = (20 :: 64 word)
       \<and> filter is_DimOp (inserted b1) = [memref_DimOp ex_scan_buf 1]"
    using scan by (simp add: scan_step_def create_def ex_rw_def eval_nat_numeral)
  from whole ex_bcast_facts(1,2,3)
  have second: "filter is_DimOp (inserted ex_view_rw) = [memref_DimOp ex_bcast_buf 1]"
    by (simp add: ex_rw_def upt_rec)
  from first ex_bcast_facts(1,2,3) second show ?thesis by blast
qed

text \<open>
  C1, as stated, fails: the map from result to operand dimensions is keyed by the
  index narrowed to an \<^verbatim>\<open>int\<close>. In a broadcast of 5 elements into 5 elements with
  the mapping \<open>[4294967296]\<close>, result dimension 0 is no index of the mapping, yet the
  index is stored under the key 0: the stride of result dimension 0 is not the constant
  0 but a select on operand dimension 0, which is 1 at run time.
\<close>

theorem unmapped_dimension_stride_counterexample:
  "0 \<notin> set (broadcast_dimensions ex_narrow)
   \<and> type_of ex_narrow_buf = Some (MemRefTy (MemRefType [Some 5] ex_f32 IdentityLayout))
   \<and> getType ex_narrow = RankedTensorType [Some 5] ex_f32
   \<and> InsertDynamicMemrefCastOp ex_narrow ex_narrow_buf ex_rw =
       Inr (memref_ReinterpretCastOp
              (MemRefType [Some 5] ex_f32 (StridedLinearLayout [None] (Some 0)))
              ex_narrow_buf (OfrAttr 0) [OfrAttr 5]
              [OfrValue (arith_SelectOp
                 (arith_CmpIOp slt (arith_ConstantIndexOp 5)
                    (tensor_ExtractOp ex_wrap_dims (arith_ConstantIndexOp 0)))
                 (arith_ConstantIndexOp 0) (arith_ConstantIndexOp 1))],
            \<lparr>inserted =
               [arith_ConstantIndexOp 0, arith_ConstantIndexOp 1, arith_ConstantIndexOp 5,
                arith_ConstantIndexOp 0,
                tensor_ExtractOp ex_wrap_dims (arith_ConstantIndexOp 0),
                arith_CmpIOp slt (arith_ConstantIndexOp 5)
                  (tensor_ExtractOp ex_wrap_dims (arith_ConstantIndexOp 0)),
                arith_SelectOp
                  (arith_CmpIOp slt (arith_ConstantIndexOp 5)
                     (tensor_ExtractOp ex_wrap_dims (arith_ConstantIndexOp 0)))
                  (arith_ConstantIndexOp 0) (arith_ConstantIndexOp 1),
                memref_ReinterpretCastOp
                  (MemRefType [Some 5] ex_f32 (StridedLinearLayout [None] (Some 0)))
                  ex_narrow_buf (OfrAttr 0) [OfrAttr 5]
                  [OfrValue (arith_SelectOp
                     (arith_CmpIOp slt (arith_ConstantIndexOp 5)
                        (tensor_ExtractOp ex_wrap_dims (arith_ConstantIndexOp 0)))
                     (arith_ConstantIndexOp 0) (arith_ConstantIndexOp 1))]],
             replaced = []\<rparr>)
   \<and> OfrValue (arith_SelectOp
         (arith_CmpIOp slt (arith_ConstantIndexOp 5)
            (tensor_ExtractOp ex_wrap_dims (arith_ConstantIndexOp 0)))
         (arith_ConstantIndexOp 0) (arith_ConstantIndexOp 1))
       \<noteq> OfrValue (arith_ConstantIndexOp 0)
   \<and> eval_ofr (\<lambda>v i. 5) (\<lambda>t i. 5)
         (OfrValue (arith_SelectOp
            (arith_CmpIOp slt (arith_ConstantIndexOp 5)
               (tensor_ExtractOp ex_wrap_dims (arith_ConstantIndexOp 0)))
            (arith_ConstantIndexOp 0) (arith_ConstantIndexOp 1)))
       = (1 :: 64 word)"
  by (simp add: InsertDynamicMemrefCastOp_def ex_narrow_def ex_narrow_buf_def ex_rw_def
      create_def scan_step_def result_step_def extract_dim_size_def isIndex_def
      narrow_to_int_def getEmptyKey_def getTombstoneKey_def makeStridedLinearLayoutMap_def
      ex_wrap_dims_def Let_def)

text \<open>
  C1, amended. In the view the rewrite builds, every result dimension \<open>d\<close> below the
  result rank has a stride. If the map from result to operand dimensions has no entry
  for \<open>d\<close> (no index of the broadcast-dimension mapping, narrowed to the map's
  32-bit key, is \<open>d\<close>), the stride is the constant 0. Otherwise, with \<open>i\<close> the
  operand dimension the map gives (the last one whose narrowed index is \<open>d\<close>), the
  stride is an \<^verbatim>\<open>arith.select\<close> on the signed comparison "size of operand dimension
  \<open>i\<close> less than the target size of \<open>d\<close>", both inserted by the rewrite: at run
  time it is 0 when the comparison holds and the operand's flattened stride of
  dimension \<open>i\<close> when it does not. When every index of the mapping fits 32 bits, the
  key is the index: the map has no entry for \<open>d\<close> exactly when \<open>d\<close> is no index of
  the mapping, and the operand dimension it gives has the index \<open>d\<close>.
\<close>

theorem stride_of_output_dimension:
  assumes "InsertDynamicMemrefCastOp op buf b = Inr (view, b1)"
    and "type_of buf = Some (MemRefTy (MemRefType osh oel ol))"
    and "getType op = RankedTensorType rsh rel"
    and "d < length rsh"
  shows "build_output_to_input_dim (broadcast_dimensions op) 0 Map.empty =
           Inr (filled_map (broadcast_dimensions op) 0 Map.empty)
    \<and> length (getStrides view) = length rsh \<and>
    (case filled_map (broadcast_dimensions op) 0 Map.empty (int d) of
       None \<Rightarrow>
         int d \<notin> narrow_to_int ` set (broadcast_dimensions op)
         \<and> getStrides view ! d = OfrValue (arith_ConstantIndexOp 0)
         \<and> eval_ofr D T (getStrides view ! d) = 0
     | Some i \<Rightarrow>
         i < length (broadcast_dimensions op) \<and> i < length osh
         \<and> narrow_to_int (broadcast_dimensions op ! i) = int d
         \<and> (\<forall>j. i < j \<and> j < length (broadcast_dimensions op) \<longrightarrow>
                narrow_to_int (broadcast_dimensions op ! j) \<noteq> int d)
         \<and> getStrides view ! d =
             OfrValue (arith_SelectOp
               (arith_CmpIOp slt (operand_size_val buf osh i) (result_dim_size_val op d))
               (arith_ConstantIndexOp 0)
               (running_product buf osh (arith_ConstantIndexOp 1) i (length osh)))
         \<and> arith_CmpIOp slt (operand_size_val buf osh i) (result_dim_size_val op d)
             \<in> set (inserted b1)
         \<and> arith_SelectOp
               (arith_CmpIOp slt (operand_size_val buf osh i) (result_dim_size_val op d))
               (arith_ConstantIndexOp 0)
               (running_product buf osh (arith_ConstantIndexOp 1) i (length osh))
             \<in> set (inserted b1)
         \<and> eval_ofr D T (getStrides view ! d) =
             (if sint (eval D T (operand_size_val buf osh i))
                   < sint (eval D T (result_dim_size_val op d))
              then 0
              else eval D T (running_product buf osh (arith_ConstantIndexOp 1) i (length osh))))
    \<and> ((\<forall>v\<in>set (broadcast_dimensions op). - 2147483648 \<le> v \<and> v < 2147483648) \<longrightarrow>
       (filled_map (broadcast_dimensions op) 0 Map.empty (int d) = None
          \<longleftrightarrow> int d \<notin> set (broadcast_dimensions op))
       \<and> (\<forall>i. filled_map (broadcast_dimensions op) 0 Map.empty (int d) = Some i
              \<longrightarrow> broadcast_dimensions op ! i = int d))"
proof -
  let ?m = "filled_map (broadcast_dimensions op) 0 Map.empty"
  note fits_nr = InsertDynamicMemrefCastOp_Inr[OF assms(1,2,3)]
  note fits = fits_nr(1)
  have built: "build_output_to_input_dim (broadcast_dimensions op) 0 Map.empty =
           Inr (filled_map (broadcast_dimensions op) 0 Map.empty)"
    using fits_nr(2) by (simp add: build_output_to_input_dim_eq)
  from assms(1) InsertDynamicMemrefCastOp_ok[OF assms(2,3) fits_nr, of b]
  have view: "view = view_val op buf osh oel rsh"
    and b1: "inserted b1 = inserted b @ view_index_ops op buf osh (length rsh) @ [view]"
    by auto
  have strides: "getStrides view = view_strides op buf osh (length rsh)"
    by (simp add: view view_val_def)
  have len: "length (getStrides view) = length rsh"
    by (simp add: strides view_strides_def)
  have nth: "getStrides view ! d =
      stride_choice ?m (arith_ConstantIndexOp 0) (operand_sizes_vals buf osh)
        (operand_strides_vals buf osh) op d"
    by (simp add: strides view_strides_nth[OF assms(4)])
  have main: "length (getStrides view) = length rsh \<and>
    (case filled_map (broadcast_dimensions op) 0 Map.empty (int d) of
       None \<Rightarrow>
         int d \<notin> narrow_to_int ` set (broadcast_dimensions op)
         \<and> getStrides view ! d = OfrValue (arith_ConstantIndexOp 0)
         \<and> eval_ofr D T (getStrides view ! d) = 0
     | Some i \<Rightarrow>
         i < length (broadcast_dimensions op) \<and> i < length osh
         \<and> narrow_to_int (broadcast_dimensions op ! i) = int d
         \<and> (\<forall>j. i < j \<and> j < length (broadcast_dimensions op) \<longrightarrow>
                narrow_to_int (broadcast_dimensions op ! j) \<noteq> int d)
         \<and> getStrides view ! d =
             OfrValue (arith_SelectOp
               (arith_CmpIOp slt (operand_size_val buf osh i) (result_dim_size_val op d))
               (arith_ConstantIndexOp 0)
               (running_product buf osh (arith_ConstantIndexOp 1) i (length osh)))
         \<and> arith_CmpIOp slt (operand_size_val buf osh i) (result_dim_size_val op d)
             \<in> set (inserted b1)
         \<and> arith_SelectOp
               (arith_CmpIOp slt (operand_size_val buf osh i) (result_dim_size_val op d))
               (arith_ConstantIndexOp 0)
               (running_product buf osh (arith_ConstantIndexOp 1) i (length osh))
             \<in> set (inserted b1)
         \<and> eval_ofr D T (getStrides view ! d) =
             (if sint (eval D T (operand_size_val buf osh i))
                   < sint (eval D T (result_dim_size_val op d))
              then 0
              else eval D T (running_product buf osh (arith_ConstantIndexOp 1) i (length osh))))"
  proof (cases "?m (int d)")
    case None
    then have "int d \<notin> narrow_to_int ` set (broadcast_dimensions op)"
      by (simp add: filled_map_None)
    with None len nth show ?thesis
      by (simp add: stride_choice_def)
  next
    case (Some i)
    then have i: "i < length (broadcast_dimensions op)"
      and key: "narrow_to_int (broadcast_dimensions op ! i) = int d"
      and later: "\<forall>j. i < j \<and> j < length (broadcast_dimensions op) \<longrightarrow>
                narrow_to_int (broadcast_dimensions op ! j) \<noteq> int d"
      by (simp_all add: filled_map_iff)
    from fits Some assms(4) have io: "i < length osh"
      by (simp add: mapping_fits_def map_in_range_def)
    let ?cmp = "arith_CmpIOp slt (operand_size_val buf osh i) (result_dim_size_val op d)"
    let ?sel = "arith_SelectOp ?cmp (arith_ConstantIndexOp 0)
                  (running_product buf osh (arith_ConstantIndexOp 1) i (length osh))"
    have sel: "getStrides view ! d = OfrValue ?sel"
      using Some io
      by (simp add: nth stride_choice_def is_expansion_val_def operand_sizes_vals_def
          operand_strides_vals_def)
    have "result_ops ?m (arith_ConstantIndexOp 0) (operand_sizes_vals buf osh)
            (operand_strides_vals buf osh) op d = extract_ops op d @ [?cmp, ?sel]"
      using Some io
      by (simp add: result_ops_def is_expansion_val_def operand_sizes_vals_def
          operand_strides_vals_def)
    with result_ops_in_view_index_ops[OF assms(4), of op buf osh]
    have "?cmp \<in> set (view_index_ops op buf osh (length rsh))"
      and "?sel \<in> set (view_index_ops op buf osh (length rsh))"
      by auto
    then have mem: "?cmp \<in> set (inserted b1)" "?sel \<in> set (inserted b1)"
      by (simp_all add: b1)
    have ev: "eval_ofr D T (getStrides view ! d) =
        (if sint (eval D T (operand_size_val buf osh i)) < sint (eval D T (result_dim_size_val op d))
         then 0
         else eval D T (running_product buf osh (arith_ConstantIndexOp 1) i (length osh)))"
      by (simp add: sel)
    from Some len i io key later sel mem ev show ?thesis
      by simp
  qed
  have plain: "((\<forall>v\<in>set (broadcast_dimensions op). - 2147483648 \<le> v \<and> v < 2147483648) \<longrightarrow>
       (filled_map (broadcast_dimensions op) 0 Map.empty (int d) = None
          \<longleftrightarrow> int d \<notin> set (broadcast_dimensions op))
       \<and> (\<forall>i. filled_map (broadcast_dimensions op) 0 Map.empty (int d) = Some i
              \<longrightarrow> broadcast_dimensions op ! i = int d))"
    using filled_map_plain by blast
  from built main plain show ?thesis by blast
qed

theorem stride_of_output_dimension_witness:
  "InsertDynamicMemrefCastOp ex_bcast ex_bcast_buf ex_rw =
     Inr (view_val ex_bcast ex_bcast_buf [Some 1, None] ex_f32 [Some 4, None, None],
          ex_rw\<lparr>inserted := inserted ex_rw @ view_index_ops ex_bcast ex_bcast_buf [Some 1, None] 3
                  @ [view_val ex_bcast ex_bcast_buf [Some 1, None] ex_f32 [Some 4, None, None]]\<rparr>)
   \<and> type_of ex_bcast_buf = Some (MemRefTy (MemRefType [Some 1, None] ex_f32 IdentityLayout))
   \<and> getType ex_bcast = RankedTensorType [Some 4, None, None] ex_f32
   \<and> filled_map (broadcast_dimensions ex_bcast) 0 Map.empty 0 = None
   \<and> getStrides (view_val ex_bcast ex_bcast_buf [Some 1, None] ex_f32 [Some 4, None, None]) ! 0 =
       OfrValue (arith_ConstantIndexOp 0)
   \<and> filled_map (broadcast_dimensions ex_bcast) 0 Map.empty 1 = Some 0
   \<and> getStrides (view_val ex_bcast ex_bcast_buf [Some 1, None] ex_f32 [Some 4, None, None]) ! 1 =
       OfrValue (arith_SelectOp
         (arith_CmpIOp slt (arith_ConstantIndexOp 1)
            (arith_IndexCastOp IndexType
               (tensor_ExtractOp ex_dims_in (arith_ConstantIndexOp 1))))
         (arith_ConstantIndexOp 0)
         (arith_MulIOp (arith_ConstantIndexOp 1) (memref_DimOp ex_bcast_buf 1)))
   \<and> eval_ofr (\<lambda>v i. 5) (\<lambda>t i. 7)
        (getStrides (view_val ex_bcast ex_bcast_buf [Some 1, None] ex_f32 [Some 4, None, None]) ! 1)
       = (0 :: 64 word)
   \<and> eval_ofr (\<lambda>v i. 5) (\<lambda>t i. 1)
        (getStrides (view_val ex_bcast ex_bcast_buf [Some 1, None] ex_f32 [Some 4, None, None]) ! 1)
       = (5 :: 64 word)
   \<and> 0 \<notin> set (broadcast_dimensions ex_bcast)
   \<and> broadcast_dimensions ex_bcast ! 0 = 1
   \<and> narrow_to_int (broadcast_dimensions ex_bcast ! 1) \<noteq> 1"
proof -
  let ?view = "view_val ex_bcast ex_bcast_buf [Some 1, None] ex_f32 [Some 4, None, None]"
  have t: "type_of ex_bcast_buf = Some (MemRefTy (MemRefType [Some 1, None] ex_f32 IdentityLayout))"
    by (simp add: ex_bcast_buf_def)
  have g: "getType ex_bcast = RankedTensorType [Some 4, None, None] ex_f32"
    by (simp add: ex_bcast_def)
  have m0: "filled_map (broadcast_dimensions ex_bcast) 0 Map.empty 0 = None"
    and m1: "filled_map (broadcast_dimensions ex_bcast) 0 Map.empty 1 = Some 0"
    by (simp_all add: ex_bcast_def narrow_to_int_def)
  have sz: "operand_size_val ex_bcast_buf [Some 1, None] 0 = arith_ConstantIndexOp 1"
    and st: "running_product ex_bcast_buf [Some 1, None] (arith_ConstantIndexOp 1) 0
               (length [Some 1, None :: int option]) =
             arith_MulIOp (arith_ConstantIndexOp 1) (memref_DimOp ex_bcast_buf 1)"
    and tg: "result_dim_size_val ex_bcast 1 =
             arith_IndexCastOp IndexType (tensor_ExtractOp ex_dims_in (arith_ConstantIndexOp 1))"
    by (simp_all add: operand_size_val_def running_product_def result_dim_size_val_def
        ex_bcast_def ex_dims_in_def isIndex_def)
  note d0 = stride_of_output_dimension[OF ex_bcast_view t g, of 0
      "\<lambda>v i. 5 :: 64 word" "\<lambda>t i. 7 :: 64 word"]
  note d1 = stride_of_output_dimension[OF ex_bcast_view t g, of 1
      "\<lambda>v i. 5 :: 64 word" "\<lambda>t i. 7 :: 64 word"]
  note d1' = stride_of_output_dimension[OF ex_bcast_view t g, of 1
      "\<lambda>v i. 5 :: 64 word" "\<lambda>t i. 1 :: 64 word"]
  have s0: "getStrides ?view ! 0 = OfrValue (arith_ConstantIndexOp 0)"
    using d0 m0 by simp
  have s1: "getStrides ?view ! 1 =
       OfrValue (arith_SelectOp
         (arith_CmpIOp slt (arith_ConstantIndexOp 1)
            (arith_IndexCastOp IndexType
               (tensor_ExtractOp ex_dims_in (arith_ConstantIndexOp 1))))
         (arith_ConstantIndexOp 0)
         (arith_MulIOp (arith_ConstantIndexOp 1) (memref_DimOp ex_bcast_buf 1)))"
    using d1 m1 sz st tg by simp
  have e1: "eval_ofr (\<lambda>v i. 5) (\<lambda>t i. 7) (getStrides ?view ! 1) = (0 :: 64 word)"
    using d1 m1 sz st tg by simp
  have e2: "eval_ofr (\<lambda>v i. 5) (\<lambda>t i. 1) (getStrides ?view ! 1) = (5 :: 64 word)"
    using d1' m1 sz st tg by simp
  have rng: "\<forall>v\<in>set (broadcast_dimensions ex_bcast). - 2147483648 \<le> v \<and> v < 2147483648"
    by (simp add: ex_bcast_def)
  have p0: "0 \<notin> set (broadcast_dimensions ex_bcast)"
    using d0 rng m0 by simp
  have p1: "broadcast_dimensions ex_bcast ! 0 = 1"
    using d1 rng m1 by simp
  have l1: "(0::nat) < 1 \<and> (1::nat) < length (broadcast_dimensions ex_bcast)"
    by (simp add: ex_bcast_def)
  from d1 m1 have "\<forall>j. 0 < j \<and> j < length (broadcast_dimensions ex_bcast) \<longrightarrow>
      narrow_to_int (broadcast_dimensions ex_bcast ! j) \<noteq> int 1"
    by simp
  with l1 have "narrow_to_int (broadcast_dimensions ex_bcast ! 1) \<noteq> int 1"
    by blast
  then have p2: "narrow_to_int (broadcast_dimensions ex_bcast ! 1) \<noteq> 1"
    by simp
  from ex_bcast_view t g m0 s0 m1 s1 e1 e2 p0 p1 p2 show ?thesis by blast
qed

text \<open>
  C4. The view is a single \<^verbatim>\<open>memref.reinterpret_cast\<close> of the operand's buffer: its
  type has the result's shape, the operand's element type and a strided layout with
  every stride dynamic and offset 0; its offset operand is the constant 0 and its sizes
  and strides are the computed ones, one per result dimension. It is the last operation
  inserted, everything inserted before it computes indices only (no allocation and no
  copy), and nothing is replaced.
\<close>

theorem view_is_one_reinterpret_cast:
  assumes "InsertDynamicMemrefCastOp op buf b = Inr (view, b1)"
    and "type_of buf = Some (MemRefTy (MemRefType osh oel ol))"
    and "getType op = RankedTensorType rsh rel"
  shows "view = memref_ReinterpretCastOp
                  (MemRefType rsh oel (StridedLinearLayout (replicate (length rsh) None) (Some 0)))
                  buf (OfrAttr 0) (view_sizes op rsh) (view_strides op buf osh (length rsh))
    \<and> length (view_sizes op rsh) = length rsh
    \<and> length (view_strides op buf osh (length rsh)) = length rsh
    \<and> inserted b1 = inserted b @ view_index_ops op buf osh (length rsh) @ [view]
    \<and> (\<forall>x\<in>set (view_index_ops op buf osh (length rsh)). is_index_computation x)
    \<and> \<not> is_index_computation view
    \<and> filter (\<lambda>x. \<not> is_index_computation x) (view_index_ops op buf osh (length rsh) @ [view])
        = [view]
    \<and> replaced b1 = replaced b"
proof -
  note r = InsertDynamicMemrefCastOp_result[OF assms]
  have v: "view = memref_ReinterpretCastOp
                  (MemRefType rsh oel (StridedLinearLayout (replicate (length rsh) None) (Some 0)))
                  buf (OfrAttr 0) (view_sizes op rsh) (view_strides op buf osh (length rsh))"
    using r(1) by (simp add: view_val_def)
  have idx: "\<forall>x\<in>set (view_index_ops op buf osh (length rsh)). is_index_computation x"
    using index_computation_view_index_ops by blast
  have nv: "\<not> is_index_computation view"
    by (simp add: v)
  have flt: "filter (\<lambda>x. \<not> is_index_computation x)
      (view_index_ops op buf osh (length rsh) @ [view]) = [view]"
    using idx nv by (simp add: filter_empty_conv)
  have ins: "inserted b1 = inserted b @ view_index_ops op buf osh (length rsh) @ [view]"
    and rep: "replaced b1 = replaced b"
    by (subst r(2), simp)+
  have len: "length (view_sizes op rsh) = length rsh"
    "length (view_strides op buf osh (length rsh)) = length rsh"
    by (simp_all add: view_sizes_def view_strides_def)
  from v len ins idx nv flt rep show ?thesis by blast
qed

theorem view_is_one_reinterpret_cast_witness:
  "InsertDynamicMemrefCastOp ex_bcast ex_bcast_buf ex_rw = Inr (ex_view, ex_view_rw)
   \<and> type_of ex_bcast_buf = Some (MemRefTy (MemRefType [Some 1, None] ex_f32 IdentityLayout))
   \<and> getType ex_bcast = RankedTensorType [Some 4, None, None] ex_f32
   \<and> ex_view = memref_ReinterpretCastOp
        (MemRefType [Some 4, None, None] ex_f32 (StridedLinearLayout [None, None, None] (Some 0)))
        ex_bcast_buf (OfrAttr 0)
        [OfrAttr 4,
         OfrValue (arith_IndexCastOp IndexType
                     (tensor_ExtractOp ex_dims_in (arith_ConstantIndexOp 1))),
         OfrValue (arith_IndexCastOp IndexType
                     (tensor_ExtractOp ex_dims_in (arith_ConstantIndexOp 2)))]
        (view_strides ex_bcast ex_bcast_buf [Some 1, None] 3)
   \<and> filter (\<lambda>x. \<not> is_index_computation x) (inserted ex_view_rw) = [ex_view]
   \<and> replaced ex_view_rw = []"
proof -
  note inst = view_is_one_reinterpret_cast[OF ex_bcast_facts(1,2,3)]
  have sizes: "view_sizes ex_bcast [Some 4, None, None] =
        [OfrAttr 4,
         OfrValue (arith_IndexCastOp IndexType
                     (tensor_ExtractOp ex_dims_in (arith_ConstantIndexOp 1))),
         OfrValue (arith_IndexCastOp IndexType
                     (tensor_ExtractOp ex_dims_in (arith_ConstantIndexOp 2)))]"
    by (simp add: view_sizes_def size_choice_def ex_dim_size_vals upt_rec)
  from inst have v: "ex_view = memref_ReinterpretCastOp
        (MemRefType [Some 4, None, None] ex_f32 (StridedLinearLayout [None, None, None] (Some 0)))
        ex_bcast_buf (OfrAttr 0) (view_sizes ex_bcast [Some 4, None, None])
        (view_strides ex_bcast ex_bcast_buf [Some 1, None] 3)"
    by (simp add: numeral_3_eq_3)
  from inst have f: "filter (\<lambda>x. \<not> is_index_computation x) (inserted ex_view_rw) = [ex_view]"
    and r: "replaced ex_view_rw = []"
    by (simp_all add: ex_rw_def)
  from ex_bcast_facts(1,2,3) v[unfolded sizes] f r show ?thesis by blast
qed

section \<open>Materialization and the dialect state\<close>

text \<open>
  C3. After the view is built the rewrite asks the policy about the operation. If the
  policy says yes, it reads the sizes of the result's dynamic dimensions from the shape
  operand, allocates an identity-layout buffer of the result's shape with them, copies
  the view into it, and the allocated buffer replaces the operation. If the policy says
  no, the view replaces the operation and nothing is inserted after it; what was
  inserted before the view computes indices only.
\<close>

theorem materialization_by_policy:
  assumes "getBuffer st rw opnd = (Some buf, rw_a)"
    and "InsertDynamicMemrefCastOp op buf rw_a = Inr (view, rw_b)"
    and "type_of buf = Some (MemRefTy (MemRefType osh oel ol))"
    and "op = mhlo_DynamicBroadcastInDimOp opnd odims bd (RankedTensorType rsh rel)"
    and "getDialectState st getDialectNamespace = Some ds"
  shows "(enforce_identity_map_fn ds op \<longrightarrow>
            DynamicBroadcastInDimOpInterface_bufferize op rw st =
              Inr (success,
                rw_b\<lparr>inserted := inserted rw_b @ copy_index_ops op rsh
                        @ [copy_alloc op oel rsh, memref_CopyOp view (copy_alloc op oel rsh)],
                     replaced := replaced rw_b @ [(op, copy_alloc op oel rsh)]\<rparr>))
    \<and> copy_alloc op oel rsh =
         memref_AllocOp (MemRefType rsh oel IdentityLayout)
           (map (result_dim_size_val op) (filter (\<lambda>i. rsh ! i = None) [0..<length rsh]))
    \<and> (\<forall>x\<in>set (copy_index_ops op rsh). is_index_computation x)
    \<and> (\<not> enforce_identity_map_fn ds op \<longrightarrow>
            DynamicBroadcastInDimOpInterface_bufferize op rw st =
              Inr (success, rw_b\<lparr>replaced := replaced rw_b @ [(op, view)]\<rparr>))
    \<and> inserted rw_b = inserted rw_a @ view_index_ops op buf osh (length rsh) @ [view]
    \<and> (\<forall>x\<in>set (view_index_ops op buf osh (length rsh)). is_index_computation x)
    \<and> (\<exists>t src off sizes strides. view = memref_ReinterpretCastOp t src off sizes strides)"
proof -
  note eq = DynamicBroadcastInDimOpInterface_bufferize_eq[OF assms]
  have g: "getType op = RankedTensorType rsh rel" by (simp add: assms(4))
  note r = InsertDynamicMemrefCastOp_result[OF assms(2,3) g]
  have ins: "inserted rw_b = inserted rw_a @ view_index_ops op buf osh (length rsh) @ [view]"
    by (subst r(2), simp)
  have idx: "\<forall>x\<in>set (view_index_ops op buf osh (length rsh)). is_index_computation x"
    using index_computation_view_index_ops by blast
  have cidx: "\<forall>x\<in>set (copy_index_ops op rsh). is_index_computation x"
    using index_computation_copy_index_ops by blast
  have al: "copy_alloc op oel rsh =
         memref_AllocOp (MemRefType rsh oel IdentityLayout)
           (map (result_dim_size_val op) (filter (\<lambda>i. rsh ! i = None) [0..<length rsh]))"
    by (simp add: copy_alloc_def copy_sizes_def)
  have vw: "\<exists>t src off sizes strides. view = memref_ReinterpretCastOp t src off sizes strides"
    using r(1) by (simp add: view_val_def)
  from eq ins idx cidx al vw show ?thesis by simp
qed

theorem materialization_by_policy_witness:
  "getBuffer (ex_state True) ex_rw ex_bcast_in = (Some ex_bcast_buf, ex_rw)
   \<and> InsertDynamicMemrefCastOp ex_bcast ex_bcast_buf ex_rw = Inr (ex_view, ex_view_rw)
   \<and> getDialectState (ex_state True) getDialectNamespace =
        Some \<lparr>enforce_identity_map_fn = (\<lambda>op. True)\<rparr>
   \<and> DynamicBroadcastInDimOpInterface_bufferize ex_bcast ex_rw (ex_state True) =
        Inr (success,
          ex_view_rw\<lparr>inserted := inserted ex_view_rw
              @ [arith_ConstantIndexOp 1,
                 tensor_ExtractOp ex_dims_in (arith_ConstantIndexOp 1),
                 arith_IndexCastOp IndexType
                   (tensor_ExtractOp ex_dims_in (arith_ConstantIndexOp 1)),
                 arith_ConstantIndexOp 2,
                 tensor_ExtractOp ex_dims_in (arith_ConstantIndexOp 2),
                 arith_IndexCastOp IndexType
                   (tensor_ExtractOp ex_dims_in (arith_ConstantIndexOp 2)),
                 copy_alloc ex_bcast ex_f32 [Some 4, None, None],
                 memref_CopyOp ex_view (copy_alloc ex_bcast ex_f32 [Some 4, None, None])],
            replaced := [(ex_bcast, copy_alloc ex_bcast ex_f32 [Some 4, None, None])]\<rparr>)
   \<and> copy_alloc ex_bcast ex_f32 [Some 4, None, None] =
        memref_AllocOp (MemRefType [Some 4, None, None] ex_f32 IdentityLayout)
          [arith_IndexCastOp IndexType (tensor_ExtractOp ex_dims_in (arith_ConstantIndexOp 1)),
           arith_IndexCastOp IndexType (tensor_ExtractOp ex_dims_in (arith_ConstantIndexOp 2))]
   \<and> getDialectState (ex_state False) getDialectNamespace =
        Some \<lparr>enforce_identity_map_fn = (\<lambda>op. False)\<rparr>
   \<and> DynamicBroadcastInDimOpInterface_bufferize ex_bcast ex_rw (ex_state False) =
        Inr (success, ex_view_rw\<lparr>replaced := [(ex_bcast, ex_view)]\<rparr>)"
proof -
  have dsT: "getDialectState (ex_state True) getDialectNamespace =
        Some \<lparr>enforce_identity_map_fn = (\<lambda>op. True)\<rparr>"
    and dsF: "getDialectState (ex_state False) getDialectNamespace =
        Some \<lparr>enforce_identity_map_fn = (\<lambda>op. False)\<rparr>"
    by (simp_all add: ex_state_def getDialectNamespace_def)
  have rep: "replaced ex_view_rw = []"
    by (simp add: ex_view_rw_def ex_rw_def)
  have cio: "copy_index_ops ex_bcast [Some 4, None, None] =
      [arith_ConstantIndexOp 1,
       tensor_ExtractOp ex_dims_in (arith_ConstantIndexOp 1),
       arith_IndexCastOp IndexType (tensor_ExtractOp ex_dims_in (arith_ConstantIndexOp 1)),
       arith_ConstantIndexOp 2,
       tensor_ExtractOp ex_dims_in (arith_ConstantIndexOp 2),
       arith_IndexCastOp IndexType (tensor_ExtractOp ex_dims_in (arith_ConstantIndexOp 2))]"
    by (simp add: copy_index_ops_def extract_ops_def ex_bcast_def ex_dims_in_def isIndex_def
        upt_rec Let_def)
  note thmT = materialization_by_policy[OF ex_bcast_facts(5)[of True] ex_bcast_facts(1,2,4) dsT]
  note thmF = materialization_by_policy[OF ex_bcast_facts(5)[of False] ex_bcast_facts(1,2,4) dsF]
  from thmT have t: "DynamicBroadcastInDimOpInterface_bufferize ex_bcast ex_rw (ex_state True) =
        Inr (success,
          ex_view_rw\<lparr>inserted := inserted ex_view_rw
              @ copy_index_ops ex_bcast [Some 4, None, None]
              @ [copy_alloc ex_bcast ex_f32 [Some 4, None, None],
                 memref_CopyOp ex_view (copy_alloc ex_bcast ex_f32 [Some 4, None, None])],
            replaced := [(ex_bcast, copy_alloc ex_bcast ex_f32 [Some 4, None, None])]\<rparr>)"
    by (simp add: rep)
  from thmT have al: "copy_alloc ex_bcast ex_f32 [Some 4, None, None] =
        memref_AllocOp (MemRefType [Some 4, None, None] ex_f32 IdentityLayout)
          [arith_IndexCastOp IndexType (tensor_ExtractOp ex_dims_in (arith_ConstantIndexOp 1)),
           arith_IndexCastOp IndexType (tensor_ExtractOp ex_dims_in (arith_ConstantIndexOp 2))]"
    by (simp add: ex_dim_size_vals upt_rec)
  from thmF have f: "DynamicBroadcastInDimOpInterface_bufferize ex_bcast ex_rw (ex_state False) =
        Inr (success, ex_view_rw\<lparr>replaced := [(ex_bcast, ex_view)]\<rparr>)"
    by (simp add: rep)
  from ex_bcast_facts(5)[of True] ex_bcast_facts(1) dsT t[unfolded cio] al dsF f
  show ?thesis by simp
qed

text \<open>
  C9. When the rewrite of a dynamic broadcast has built its view and the state holds no
  mhlo dialect state, the assertion fails; with a dialect state present the rewrite
  never ends in that assertion failure. A run of the pass is the driver's walk over the
  module with the state the driver creates from the pass's options: its buffer lookup
  is the driver's, and it holds a dialect state for the mhlo namespace, the one the pass
  registers unless the options the pass starts from bring their own. Every rewrite of
  the run is given that state, so no run of the pass ends in that assertion failure;
  a module of one dynamic broadcast whose view is built is rewritten as the registered
  policy decides.
\<close>

theorem dialect_state_assertion:
  "(getBuffer st rw opnd = (Some buf, rw_a)
      \<and> InsertDynamicMemrefCastOp
            (mhlo_DynamicBroadcastInDimOp opnd odims bd (RankedTensorType rsh rel)) buf rw_a =
          Inr (view, rw_b)
      \<and> getDialectState st getDialectNamespace = None \<longrightarrow>
      DynamicBroadcastInDimOpInterface_bufferize
          (mhlo_DynamicBroadcastInDimOp opnd odims bd (RankedTensorType rsh rel)) rw st =
        Inl DialectStateNotInitialized)
   \<and> (getDialectState st getDialectNamespace \<noteq> None \<longrightarrow>
        DynamicBroadcastInDimOpInterface_bufferize op rw st \<noteq> Inl DialectStateNotInitialized)
   \<and> runOnOperation partial_options default_state get_buffer module rw0 =
        pass_result
          (bufferizeOps module (pass_state partial_options default_state get_buffer) rw0)
   \<and> getBuffer (pass_state partial_options default_state get_buffer) = get_buffer
   \<and> getDialectState (pass_state partial_options default_state get_buffer)
        getDialectNamespace \<noteq> None
   \<and> (getDialectNamespace \<notin> fst ` set (stateInitializers partial_options) \<longrightarrow>
        getDialectState (pass_state partial_options default_state get_buffer)
          getDialectNamespace = Some default_state)
   \<and> runOnOperation partial_options default_state get_buffer module rw0
        \<noteq> Inl DialectStateNotInitialized
   \<and> (get_buffer rw0 opnd' = (Some buf', rw_c)
        \<and> InsertDynamicMemrefCastOp op' buf' rw_c = Inr (view', rw_d)
        \<and> type_of buf' = Some (MemRefTy (MemRefType osh oel ol))
        \<and> op' = mhlo_DynamicBroadcastInDimOp opnd' odims' bd' (RankedTensorType rsh' rel')
        \<and> getDialectNamespace \<notin> fst ` set (stateInitializers partial_options) \<longrightarrow>
        runOnOperation partial_options default_state get_buffer [op'] rw0 =
          Inr (False,
            if enforce_identity_map_fn default_state op'
            then rw_d\<lparr>inserted := inserted rw_d @ copy_index_ops op' rsh'
                        @ [copy_alloc op' oel rsh',
                           memref_CopyOp view' (copy_alloc op' oel rsh')],
                      replaced := replaced rw_d @ [(op', copy_alloc op' oel rsh')]\<rparr>
            else rw_d\<lparr>replaced := replaced rw_d @ [(op', view')]\<rparr>))"
proof (intro conjI impI)
  assume "getBuffer st rw opnd = (Some buf, rw_a)
      \<and> InsertDynamicMemrefCastOp
            (mhlo_DynamicBroadcastInDimOp opnd odims bd (RankedTensorType rsh rel)) buf rw_a =
          Inr (view, rw_b)
      \<and> getDialectState st getDialectNamespace = None"
  then show "DynamicBroadcastInDimOpInterface_bufferize
          (mhlo_DynamicBroadcastInDimOp opnd odims bd (RankedTensorType rsh rel)) rw st =
        Inl DialectStateNotInitialized"
    by (simp add: DynamicBroadcastInDimOpInterface_bufferize_def)
next
  assume "getDialectState st getDialectNamespace \<noteq> None"
  then show "DynamicBroadcastInDimOpInterface_bufferize op rw st \<noteq> Inl DialectStateNotInitialized"
    using bufferize_initialized[of st DynamicBroadcastInDimOpInterface] by simp
next
  show "runOnOperation partial_options default_state get_buffer module rw0 =
        pass_result
          (bufferizeOps module (pass_state partial_options default_state get_buffer) rw0)"
    by (rule runOnOperation_eq)
next
  show "getBuffer (pass_state partial_options default_state get_buffer) = get_buffer"
    by (rule pass_state_getBuffer)
next
  show "getDialectState (pass_state partial_options default_state get_buffer)
        getDialectNamespace \<noteq> None"
    by (rule pass_state_initialized)
next
  assume "getDialectNamespace \<notin> fst ` set (stateInitializers partial_options)"
  then show "getDialectState (pass_state partial_options default_state get_buffer)
          getDialectNamespace = Some default_state"
    by (rule pass_state_default)
next
  have "bufferizeOps module (pass_state partial_options default_state get_buffer) rw0
          \<noteq> Inl DialectStateNotInitialized"
    using pass_state_initialized by (rule bufferizeOps_initialized)
  then show "runOnOperation partial_options default_state get_buffer module rw0
        \<noteq> Inl DialectStateNotInitialized"
    by (auto simp: runOnOperation_eq pass_result_def split: sum.splits prod.splits)
next
  assume a: "get_buffer rw0 opnd' = (Some buf', rw_c)
        \<and> InsertDynamicMemrefCastOp op' buf' rw_c = Inr (view', rw_d)
        \<and> type_of buf' = Some (MemRefTy (MemRefType osh oel ol))
        \<and> op' = mhlo_DynamicBroadcastInDimOp opnd' odims' bd' (RankedTensorType rsh' rel')
        \<and> getDialectNamespace \<notin> fst ` set (stateInitializers partial_options)"
  then have gb: "get_buffer rw0 opnd' = (Some buf', rw_c)"
    and ins: "InsertDynamicMemrefCastOp op' buf' rw_c = Inr (view', rw_d)"
    and t: "type_of buf' = Some (MemRefTy (MemRefType osh oel ol))"
    and op: "op' = mhlo_DynamicBroadcastInDimOp opnd' odims' bd' (RankedTensorType rsh' rel')"
    and ds: "getDialectNamespace \<notin> fst ` set (stateInitializers partial_options)"
    by blast+
  show "runOnOperation partial_options default_state get_buffer [op'] rw0 =
          Inr (False,
            if enforce_identity_map_fn default_state op'
            then rw_d\<lparr>inserted := inserted rw_d @ copy_index_ops op' rsh'
                        @ [copy_alloc op' oel rsh',
                           memref_CopyOp view' (copy_alloc op' oel rsh')],
                      replaced := replaced rw_d @ [(op', copy_alloc op' oel rsh')]\<rparr>
            else rw_d\<lparr>replaced := replaced rw_d @ [(op', view')]\<rparr>)"
    using gb ins t op ds by (rule runOnOperation_single_broadcast)
qed

theorem dialect_state_assertion_witness:
  "getBuffer ex_state_uninitialized ex_rw ex_bcast_in = (Some ex_bcast_buf, ex_rw)
   \<and> InsertDynamicMemrefCastOp ex_bcast ex_bcast_buf ex_rw = Inr (ex_view, ex_view_rw)
   \<and> getDialectState ex_state_uninitialized getDialectNamespace = None
   \<and> DynamicBroadcastInDimOpInterface_bufferize ex_bcast ex_rw ex_state_uninitialized =
        Inl DialectStateNotInitialized
   \<and> getDialectState (ex_state False) getDialectNamespace \<noteq> None
   \<and> DynamicBroadcastInDimOpInterface_bufferize ex_bcast ex_rw (ex_state False) \<noteq>
        Inl DialectStateNotInitialized
   \<and> getDialectNamespace \<notin> fst ` set (stateInitializers ex_options)
   \<and> getDialectState (pass_state ex_options ex_no_copy ex_getBuffer) getDialectNamespace =
        Some ex_no_copy
   \<and> ex_getBuffer ex_rw ex_bcast_in = (Some ex_bcast_buf, ex_rw)
   \<and> type_of ex_bcast_buf = Some (MemRefTy (MemRefType [Some 1, None] ex_f32 IdentityLayout))
   \<and> runOnOperation ex_options ex_no_copy ex_getBuffer [ex_bcast] ex_rw =
        Inr (False, ex_view_rw\<lparr>replaced := [(ex_bcast, ex_view)]\<rparr>)
   \<and> runOnOperation ex_options ex_no_copy ex_getBuffer [ex_bcast] ex_rw \<noteq>
        Inl DialectStateNotInitialized"
proof -
  have none: "getDialectState ex_state_uninitialized getDialectNamespace = None"
    by (simp add: ex_state_uninitialized_def)
  have some: "getDialectState (ex_state False) getDialectNamespace \<noteq> None"
    by (simp add: ex_state_def getDialectNamespace_def)
  have noinit: "getDialectNamespace \<notin> fst ` set (stateInitializers ex_options)"
    by (simp add: ex_options_def)
  have gb: "ex_getBuffer ex_rw ex_bcast_in = (Some ex_bcast_buf, ex_rw)"
    by (simp add: ex_getBuffer_def ex_bcast_in_def ex_bcast_buf_def memref_type_of_tensor_def)
  have pol: "\<not> enforce_identity_map_fn ex_no_copy ex_bcast"
    by (simp add: ex_no_copy_def)
  have rep: "replaced ex_view_rw = []"
    by (simp add: ex_view_rw_def ex_rw_def)
  note inst1 = dialect_state_assertion[where st = ex_state_uninitialized and rw = ex_rw
      and opnd = ex_bcast_in and buf = ex_bcast_buf and rw_a = ex_rw and odims = ex_dims_in
      and bd = "[1, 2]" and rsh = "[Some 4, None, None]" and rel = ex_f32
      and view = ex_view and rw_b = ex_view_rw]
  note inst2 = dialect_state_assertion[where st = "ex_state False" and rw = ex_rw
      and op = ex_bcast and partial_options = ex_options and default_state = ex_no_copy
      and get_buffer = ex_getBuffer and module = "[ex_bcast]" and rw0 = ex_rw
      and opnd' = ex_bcast_in and buf' = ex_bcast_buf and rw_c = ex_rw and op' = ex_bcast
      and view' = ex_view and rw_d = ex_view_rw and osh = "[Some 1, None]" and oel = ex_f32
      and ol = IdentityLayout and odims' = ex_dims_in and bd' = "[1, 2]"
      and rsh' = "[Some 4, None, None]" and rel' = ex_f32]
  from inst1 ex_bcast_facts(6) ex_bcast_facts(1) none
  have a: "DynamicBroadcastInDimOpInterface_bufferize ex_bcast ex_rw ex_state_uninitialized =
        Inl DialectStateNotInitialized"
    by (simp add: ex_bcast_facts(4)[symmetric])
  from inst2 some
  have b: "DynamicBroadcastInDimOpInterface_bufferize ex_bcast ex_rw (ex_state False) \<noteq>
        Inl DialectStateNotInitialized"
    by blast
  from inst2 noinit
  have c: "getDialectState (pass_state ex_options ex_no_copy ex_getBuffer) getDialectNamespace =
        Some ex_no_copy"
    by blast
  from inst2
  have d: "runOnOperation ex_options ex_no_copy ex_getBuffer [ex_bcast] ex_rw \<noteq>
        Inl DialectStateNotInitialized"
    by blast
  from inst2 gb ex_bcast_facts(1) ex_bcast_facts(2) ex_bcast_facts(4) noinit
  have "runOnOperation ex_options ex_no_copy ex_getBuffer [ex_bcast] ex_rw =
          Inr (False,
            if enforce_identity_map_fn ex_no_copy ex_bcast
            then ex_view_rw\<lparr>inserted := inserted ex_view_rw
                        @ copy_index_ops ex_bcast [Some 4, None, None]
                        @ [copy_alloc ex_bcast ex_f32 [Some 4, None, None],
                           memref_CopyOp ex_view (copy_alloc ex_bcast ex_f32 [Some 4, None, None])],
                      replaced := replaced ex_view_rw
                        @ [(ex_bcast, copy_alloc ex_bcast ex_f32 [Some 4, None, None])]\<rparr>
            else ex_view_rw\<lparr>replaced := replaced ex_view_rw @ [(ex_bcast, ex_view)]\<rparr>)"
    by blast
  then have e: "runOnOperation ex_options ex_no_copy ex_getBuffer [ex_bcast] ex_rw =
        Inr (False, ex_view_rw\<lparr>replaced := [(ex_bcast, ex_view)]\<rparr>)"
    using pol by (simp add: rep)
  from ex_bcast_facts(6) ex_bcast_facts(1) none a some b noinit c gb ex_bcast_facts(2) e d
  show ?thesis by blast
qed

section \<open>Mappings that are not valid\<close>

text \<open>
  C10, as stated, fails in three places. A mapping with more entries than the operand
  has dimensions makes the second loop read outside \<^verbatim>\<open>operand_sizes\<close>: with the
  mapping \<open>[0, 0]\<close> and an operand of rank 1 the rewrite ends in the vector's assertion
  instead of succeeding. The out-of-range index 2147483647 is a key the map refuses: the
  rewrite ends in the map's assertion. And the indices of the mapping are 64-bit values
  while the map's key is an \<^verbatim>\<open>int\<close>: the index 4294967296 of a mapping into a result
  of rank 1 is out of range, yet it is stored under the key 0, so result dimension 0
  takes its stride from operand dimension 0 instead of the constant 0.
\<close>

theorem out_of_range_mapping_counterexample:
  "getBuffer (ex_state False) ex_rw (operand ex_long) = (Some ex_wrap_buf, ex_rw)
   \<and> DynamicBroadcastInDimOpInterface_bufferize ex_long ex_rw (ex_state False) =
       Inl IndexOutOfRange
   \<and> getBuffer (ex_state False) ex_rw (operand ex_reserved) = (Some ex_wrap_buf, ex_rw)
   \<and> DynamicBroadcastInDimOpInterface_bufferize ex_reserved ex_rw (ex_state False) =
       Inl DenseMapReservedKey
   \<and> \<not> out_of_range_ignored [4294967296] 1
   \<and> \<not> (0 \<le> (4294967296 :: int) \<and> (4294967296 :: int) < 1)
   \<and> filled_map (broadcast_dimensions ex_wrap) 0 Map.empty 0 = Some 0
   \<and> InsertDynamicMemrefCastOp ex_wrap ex_wrap_buf ex_rw =
       Inr (memref_ReinterpretCastOp
              (MemRefType [Some 5] ex_f32 (StridedLinearLayout [None] (Some 0)))
              ex_wrap_buf (OfrAttr 0) [OfrAttr 5]
              [OfrValue (arith_SelectOp
                 (arith_CmpIOp slt (arith_ConstantIndexOp 1)
                    (tensor_ExtractOp ex_wrap_dims (arith_ConstantIndexOp 0)))
                 (arith_ConstantIndexOp 0) (arith_ConstantIndexOp 1))],
            \<lparr>inserted =
               [arith_ConstantIndexOp 0, arith_ConstantIndexOp 1, arith_ConstantIndexOp 1,
                arith_ConstantIndexOp 0,
                tensor_ExtractOp ex_wrap_dims (arith_ConstantIndexOp 0),
                arith_CmpIOp slt (arith_ConstantIndexOp 1)
                  (tensor_ExtractOp ex_wrap_dims (arith_ConstantIndexOp 0)),
                arith_SelectOp
                  (arith_CmpIOp slt (arith_ConstantIndexOp 1)
                     (tensor_ExtractOp ex_wrap_dims (arith_ConstantIndexOp 0)))
                  (arith_ConstantIndexOp 0) (arith_ConstantIndexOp 1),
                memref_ReinterpretCastOp
                  (MemRefType [Some 5] ex_f32 (StridedLinearLayout [None] (Some 0)))
                  ex_wrap_buf (OfrAttr 0) [OfrAttr 5]
                  [OfrValue (arith_SelectOp
                     (arith_CmpIOp slt (arith_ConstantIndexOp 1)
                        (tensor_ExtractOp ex_wrap_dims (arith_ConstantIndexOp 0)))
                     (arith_ConstantIndexOp 0) (arith_ConstantIndexOp 1))]],
             replaced = []\<rparr>)"
proof -
  have m: "filled_map [4294967296] 0 Map.empty 0 = Some 0"
    by (simp add: narrow_to_int_def)
  have "\<not> out_of_range_ignored [4294967296] 1"
    using m by (simp add: out_of_range_ignored_def)
  moreover have "InsertDynamicMemrefCastOp ex_wrap ex_wrap_buf ex_rw =
       Inr (memref_ReinterpretCastOp
              (MemRefType [Some 5] ex_f32 (StridedLinearLayout [None] (Some 0)))
              ex_wrap_buf (OfrAttr 0) [OfrAttr 5]
              [OfrValue (arith_SelectOp
                 (arith_CmpIOp slt (arith_ConstantIndexOp 1)
                    (tensor_ExtractOp ex_wrap_dims (arith_ConstantIndexOp 0)))
                 (arith_ConstantIndexOp 0) (arith_ConstantIndexOp 1))],
            \<lparr>inserted =
               [arith_ConstantIndexOp 0, arith_ConstantIndexOp 1, arith_ConstantIndexOp 1,
                arith_ConstantIndexOp 0,
                tensor_ExtractOp ex_wrap_dims (arith_ConstantIndexOp 0),
                arith_CmpIOp slt (arith_ConstantIndexOp 1)
                  (tensor_ExtractOp ex_wrap_dims (arith_ConstantIndexOp 0)),
                arith_SelectOp
                  (arith_CmpIOp slt (arith_ConstantIndexOp 1)
                     (tensor_ExtractOp ex_wrap_dims (arith_ConstantIndexOp 0)))
                  (arith_ConstantIndexOp 0) (arith_ConstantIndexOp 1),
                memref_ReinterpretCastOp
                  (MemRefType [Some 5] ex_f32 (StridedLinearLayout [None] (Some 0)))
                  ex_wrap_buf (OfrAttr 0) [OfrAttr 5]
                  [OfrValue (arith_SelectOp
                     (arith_CmpIOp slt (arith_ConstantIndexOp 1)
                        (tensor_ExtractOp ex_wrap_dims (arith_ConstantIndexOp 0)))
                     (arith_ConstantIndexOp 0) (arith_ConstantIndexOp 1))]],
             replaced = []\<rparr>)"
    by (simp add: InsertDynamicMemrefCastOp_def ex_wrap_def ex_wrap_buf_def ex_rw_def
        create_def scan_step_def result_step_def extract_dim_size_def isIndex_def
        narrow_to_int_def getEmptyKey_def getTombstoneKey_def makeStridedLinearLayoutMap_def
        ex_wrap_dims_def Let_def)
  moreover have "getBuffer (ex_state False) ex_rw (operand ex_long) = (Some ex_wrap_buf, ex_rw)"
    by (simp add: ex_state_def ex_getBuffer_def ex_long_def ex_wrap_buf_def
        memref_type_of_tensor_def)
  moreover have "DynamicBroadcastInDimOpInterface_bufferize ex_long ex_rw (ex_state False) =
       Inl IndexOutOfRange"
    by (simp add: DynamicBroadcastInDimOpInterface_bufferize_def InsertDynamicMemrefCastOp_def
        ex_long_def ex_rw_def create_def scan_step_def result_step_def extract_dim_size_def
        isIndex_def ex_state_def ex_getBuffer_def memref_type_of_tensor_def narrow_to_int_def
        getEmptyKey_def getTombstoneKey_def ex_wrap_dims_def Let_def)
  moreover have "getBuffer (ex_state False) ex_rw (operand ex_reserved) =
       (Some ex_wrap_buf, ex_rw)"
    by (simp add: ex_state_def ex_getBuffer_def ex_reserved_def ex_wrap_buf_def
        memref_type_of_tensor_def)
  moreover have "DynamicBroadcastInDimOpInterface_bufferize ex_reserved ex_rw (ex_state False) =
       Inl DenseMapReservedKey"
    by (simp add: DynamicBroadcastInDimOpInterface_bufferize_def InsertDynamicMemrefCastOp_def
        ex_reserved_def ex_rw_def create_def scan_step_def ex_state_def ex_getBuffer_def
        memref_type_of_tensor_def narrow_to_int_def getEmptyKey_def getTombstoneKey_def
        Let_def)
  ultimately show ?thesis
    using m by (simp add: ex_wrap_def)
qed

text \<open>
  C10, amended. The rewrite does not validate the mapping: for any mapping with one
  entry per operand dimension and no key the map refuses (duplicates, any order and
  out-of-range values included), given a ranked result, an operand buffer of ranked
  memref type and the dialect state, it succeeds and builds the view. The map is keyed
  by the index narrowed to 32 bits; the entry of a key is the last operand dimension
  with that key; an operand dimension whose key is outside the result's dimensions is
  the operand dimension of no result dimension. On indices that fit 32 bits the key is
  the index.
\<close>

theorem mapping_not_validated:
  assumes "getBuffer st rw opnd = (Some buf, rw_a)"
    and "type_of buf = Some (MemRefTy (MemRefType osh oel ol))"
    and "length bd = length osh"
    and "getDialectState st getDialectNamespace = Some ds"
    and "op = mhlo_DynamicBroadcastInDimOp opnd odims bd (RankedTensorType rsh rel)"
    and "no_reserved_key bd"
  shows "(\<exists>rw'. DynamicBroadcastInDimOpInterface_bufferize op rw st = Inr (success, rw'))
    \<and> build_output_to_input_dim bd 0 Map.empty = Inr (filled_map bd 0 Map.empty)
    \<and> InsertDynamicMemrefCastOp op buf rw_a =
        Inr (view_val op buf osh oel rsh,
             rw_a\<lparr>inserted := inserted rw_a @ view_index_ops op buf osh (length rsh)
                     @ [view_val op buf osh oel rsh]\<rparr>)
    \<and> (\<forall>k i. filled_map bd 0 Map.empty k = Some i \<longleftrightarrow>
           i < length bd \<and> narrow_to_int (bd ! i) = k
           \<and> (\<forall>j. i < j \<and> j < length bd \<longrightarrow> narrow_to_int (bd ! j) \<noteq> k))
    \<and> (\<forall>i<length bd.
           narrow_to_int (bd ! i) < 0 \<or> int (length rsh) \<le> narrow_to_int (bd ! i) \<longrightarrow>
           (\<forall>d<length rsh. filled_map bd 0 Map.empty (int d) \<noteq> Some i))
    \<and> (\<forall>v. - 2147483648 \<le> v \<and> v < 2147483648 \<longrightarrow> narrow_to_int v = v)"
proof -
  have g: "getType op = RankedTensorType rsh rel"
    and b: "broadcast_dimensions op = bd"
    by (simp_all add: assms(5))
  have fits: "mapping_fits op (length osh) (length rsh)"
    using filled_map_in_range[of bd "[0..<length rsh]"]
    by (simp add: mapping_fits_def b assms(3))
  have nr: "no_reserved_key (broadcast_dimensions op)"
    using assms(6) by (simp add: b)
  have built: "build_output_to_input_dim bd 0 Map.empty = Inr (filled_map bd 0 Map.empty)"
    using assms(6) by (simp add: build_output_to_input_dim_eq)
  note ins = InsertDynamicMemrefCastOp_ok[OF assms(2) g fits nr, of rw_a]
  note eq = DynamicBroadcastInDimOpInterface_bufferize_eq[OF assms(1) ins assms(2,5,4)]
  have ok: "\<exists>rw'. DynamicBroadcastInDimOpInterface_bufferize op rw st = Inr (success, rw')"
    using eq by (cases "enforce_identity_map_fn ds op") simp_all
  have iff: "\<forall>k i. filled_map bd 0 Map.empty k = Some i \<longleftrightarrow>
           i < length bd \<and> narrow_to_int (bd ! i) = k
           \<and> (\<forall>j. i < j \<and> j < length bd \<longrightarrow> narrow_to_int (bd ! j) \<noteq> k)"
    using filled_map_iff by blast
  have ign: "\<forall>i<length bd.
           narrow_to_int (bd ! i) < 0 \<or> int (length rsh) \<le> narrow_to_int (bd ! i) \<longrightarrow>
           (\<forall>d<length rsh. filled_map bd 0 Map.empty (int d) \<noteq> Some i)"
    by (auto simp: filled_map_iff)
  have nid: "\<forall>v. - 2147483648 \<le> v \<and> v < 2147483648 \<longrightarrow> narrow_to_int v = v"
    by (simp add: narrow_to_int_id)
  from ok built ins iff ign nid show ?thesis by blast
qed

theorem mapping_not_validated_witness:
  "getBuffer (ex_state False) ex_rw ex_dup_in = (Some ex_dup_buf, ex_rw)
   \<and> type_of ex_dup_buf =
        Some (MemRefTy (MemRefType [Some 1, Some 5, Some 1] ex_f32 IdentityLayout))
   \<and> length [1, 1, 7 :: int] = length [Some 1, Some 5, Some 1 :: int option]
   \<and> no_reserved_key [1, 1, 7]
   \<and> (case DynamicBroadcastInDimOpInterface_bufferize ex_dup ex_rw (ex_state False) of
         Inl e \<Rightarrow> False
       | Inr (r, rw') \<Rightarrow> r = success)
   \<and> filled_map [1, 1, 7] 0 Map.empty 0 = None
   \<and> filled_map [1, 1, 7] 0 Map.empty 1 = Some 1
   \<and> filled_map [1, 1, 7] 0 Map.empty 0 \<noteq> Some 2
   \<and> filled_map [1, 1, 7] 0 Map.empty 1 \<noteq> Some 2
   \<and> narrow_to_int 7 = 7
   \<and> getStrides (view_val ex_dup ex_dup_buf [Some 1, Some 5, Some 1] ex_f32 [Some 3, Some 5]) =
        [OfrValue (arith_ConstantIndexOp 0),
         OfrValue (arith_SelectOp
           (arith_CmpIOp slt (arith_ConstantIndexOp 5)
              (arith_IndexCastOp IndexType
                 (tensor_ExtractOp ex_shape_in (arith_ConstantIndexOp 1))))
           (arith_ConstantIndexOp 0)
           (arith_MulIOp (arith_ConstantIndexOp 1) (arith_ConstantIndexOp 1)))]"
proof -
  have gb: "getBuffer (ex_state False) ex_rw ex_dup_in = (Some ex_dup_buf, ex_rw)"
    by (simp add: ex_state_def ex_getBuffer_def ex_dup_in_def ex_dup_buf_def
        memref_type_of_tensor_def)
  have t: "type_of ex_dup_buf =
        Some (MemRefTy (MemRefType [Some 1, Some 5, Some 1] ex_f32 IdentityLayout))"
    by (simp add: ex_dup_buf_def)
  have len: "length [1, 1, 7 :: int] = length [Some 1, Some 5, Some 1 :: int option]"
    by simp
  have ds: "getDialectState (ex_state False) getDialectNamespace =
        Some \<lparr>enforce_identity_map_fn = (\<lambda>op. False)\<rparr>"
    by (simp add: ex_state_def getDialectNamespace_def)
  have nr: "no_reserved_key [1, 1, 7]"
    by (simp add: no_reserved_key_def narrow_to_int_def getEmptyKey_def getTombstoneKey_def)
  note inst = mapping_not_validated[OF gb t len ds ex_dup_def nr]
  from inst have ok: "case DynamicBroadcastInDimOpInterface_bufferize ex_dup ex_rw (ex_state False) of
         Inl e \<Rightarrow> False
       | Inr (r, rw') \<Rightarrow> r = success"
    by auto
  have m0: "filled_map [1, 1, 7] 0 Map.empty 0 = None"
    and m1: "filled_map [1, 1, 7] 0 Map.empty 1 = Some 1"
    by (simp_all add: narrow_to_int_def)
  have n7: "int (length [Some 3, Some 5 :: int option]) \<le> narrow_to_int ([1, 1, 7] ! 2)"
    by (simp add: narrow_to_int_def)
  from inst n7 have ign: "\<forall>d<length [Some 3, Some 5 :: int option].
      filled_map [1, 1, 7] 0 Map.empty (int d) \<noteq> Some 2"
    by simp
  have l0: "(0::nat) < length [Some 3, Some 5 :: int option]"
    and l1: "(1::nat) < length [Some 3, Some 5 :: int option]"
    by simp_all
  from ign l0 have "filled_map [1, 1, 7] 0 Map.empty (int 0) \<noteq> Some 2"
    by blast
  then have i0: "filled_map [1, 1, 7] 0 Map.empty 0 \<noteq> Some 2"
    by (simp add: narrow_to_int_def)
  from ign l1 have "filled_map [1, 1, 7] 0 Map.empty (int 1) \<noteq> Some 2"
    by blast
  then have i1: "filled_map [1, 1, 7] 0 Map.empty 1 \<noteq> Some 2"
    by (simp add: narrow_to_int_def)
  have st: "getStrides (view_val ex_dup ex_dup_buf [Some 1, Some 5, Some 1] ex_f32 [Some 3, Some 5]) =
        [OfrValue (arith_ConstantIndexOp 0),
         OfrValue (arith_SelectOp
           (arith_CmpIOp slt (arith_ConstantIndexOp 5)
              (arith_IndexCastOp IndexType
                 (tensor_ExtractOp ex_shape_in (arith_ConstantIndexOp 1))))
           (arith_ConstantIndexOp 0)
           (arith_MulIOp (arith_ConstantIndexOp 1) (arith_ConstantIndexOp 1)))]"
    by (simp add: view_val_def view_strides_def stride_choice_def is_expansion_val_def
        operand_sizes_vals_def operand_strides_vals_def operand_size_val_def
        running_product_def result_dim_size_val_def ex_dup_def ex_shape_in_def isIndex_def
        narrow_to_int_def upt_rec)
  from inst have "- 2147483648 \<le> (7::int) \<and> (7::int) < 2147483648 \<longrightarrow> narrow_to_int 7 = 7"
    by blast
  then have n7id: "narrow_to_int 7 = 7"
    by simp
  from gb t len nr ok m0 m1 i0 i1 n7id st show ?thesis by blast
qed

end
